theory Spec2Isabelle
  imports Main
begin

chapter \<open>The model\<close>

section \<open>Strings of the host language\<close>

text \<open>
  JavaScript strings are modelled as \<^typ>\<open>string\<close>: a character stands for one code unit,
  and the code units above 255 are outside the model. The library functions that the
  service calls on strings and arrays are written out here.
\<close>

abbreviation newline :: char where
  "newline \<equiv> CHR 0x0A"

text \<open>\<^verbatim>\<open>Array.prototype.join(sep)\<close>.\<close>

fun join :: "string \<Rightarrow> string list \<Rightarrow> string" where
  "join sep [] = []"
| "join sep [x] = x"
| "join sep (x # y # ys) = x @ sep @ join sep (y # ys)"

text \<open>\<^verbatim>\<open>String.prototype.padEnd(n)\<close>: pads with spaces up to length \<open>n\<close>, never truncates.\<close>

definition padEnd :: "string \<Rightarrow> nat \<Rightarrow> string" where
  "padEnd s n = s @ replicate (n - length s) CHR '' ''"

text \<open>\<^verbatim>\<open>s.split('\n')\<close>: the pieces of \<open>s\<close> between line feeds; always at least one piece.\<close>

fun split_lines_acc :: "string \<Rightarrow> string \<Rightarrow> string list" where
  "split_lines_acc acc [] = [rev acc]"
| "split_lines_acc acc (c # cs) =
     (if c = newline then rev acc # split_lines_acc [] cs
      else split_lines_acc (c # acc) cs)"

definition split_lines :: "string \<Rightarrow> string list" where
  "split_lines s = split_lines_acc [] s"

text \<open>\<^verbatim>\<open>s.startsWith(p)\<close> and \<^verbatim>\<open>s.includes(p)\<close>.\<close>

definition startsWith :: "string \<Rightarrow> string \<Rightarrow> bool" where
  "startsWith s p = (take (length p) s = p)"

fun includes_str :: "string \<Rightarrow> string \<Rightarrow> bool" where
  "includes_str [] p = (p = [])"
| "includes_str (c # cs) p = (startsWith (c # cs) p \<or> includes_str cs p)"

text \<open>
  \<^verbatim>\<open>s.trim()\<close> removes white space and line terminators from both ends. Of the characters
  JavaScript counts as such, those that an 8-bit character can hold are the tab, the
  line feed, the vertical tab, the form feed, the carriage return, the space and the
  no-break space.
\<close>

definition isWhiteSpace :: "char \<Rightarrow> bool" where
  "isWhiteSpace c = (c \<in> set [CHR 0x09, CHR 0x0A, CHR 0x0B, CHR 0x0C, CHR 0x0D, CHR 0x20, CHR 0xA0])"

definition trim :: "string \<Rightarrow> string" where
  "trim s = rev (dropWhile isWhiteSpace (rev (dropWhile isWhiteSpace s)))"

text \<open>\<^verbatim>\<open>s.substring(0, n)\<close> is \<^term>\<open>take n s\<close>. Decimal rendering of a number in a template string:\<close>

definition digitChar :: "nat \<Rightarrow> char" where
  "digitChar d = ''0123456789'' ! d"

fun decimalDigits :: "nat \<Rightarrow> nat list" where
  "decimalDigits n = (if n < 10 then [n] else decimalDigits (n div 10) @ [n mod 10])"

declare decimalDigits.simps [simp del]

definition showNat :: "nat \<Rightarrow> string" where
  "showNat n = map digitChar (decimalDigits n)"

definition showInt :: "int \<Rightarrow> string" where
  "showInt i = (if i < 0 then CHR ''-'' # showNat (nat (- i)) else showNat (nat i))"

text \<open>
  Truthiness of an optional string (\<^verbatim>\<open>string | null | undefined\<close>): absent and the empty
  string are falsy. \<^verbatim>\<open>x || d\<close> on such a value is \<open>orElse x d\<close>.
\<close>

definition truthy :: "string option \<Rightarrow> bool" where
  "truthy x = (case x of None \<Rightarrow> False | Some v \<Rightarrow> v \<noteq> [])"

definition falsy :: "string option \<Rightarrow> bool" where
  "falsy x = (case x of None \<Rightarrow> True | Some v \<Rightarrow> v = [])"

definition orElse :: "string option \<Rightarrow> string \<Rightarrow> string" where
  "orElse x d = (case x of None \<Rightarrow> d | Some v \<Rightarrow> if v = [] then d else v)"

text \<open>An optional flag with its value, pushed onto an argument list when the value is truthy.\<close>

definition flagIf :: "string \<Rightarrow> string option \<Rightarrow> string list" where
  "flagIf flag x = (case x of None \<Rightarrow> [] | Some v \<Rightarrow> if v = [] then [] else [flag, v])"

section \<open>JSON values\<close>

text \<open>
  What \<^verbatim>\<open>JSON.parse\<close> and the HTTP client hand back. Numbers are integers here. A property
  that is absent reads as \<^verbatim>\<open>undefined\<close>, which is \<open>None\<close>.
\<close>

datatype json =
    JNull
  | JBool bool
  | JNum int
  | JStr string
  | JArr "json list"
  | JObj "(string \<times> json) list"

fun jtruthy :: "json \<Rightarrow> bool" where
  "jtruthy JNull = False"
| "jtruthy (JBool b) = b"
| "jtruthy (JNum n) = (n \<noteq> 0)"
| "jtruthy (JStr s) = (s \<noteq> [])"
| "jtruthy (JArr xs) = True"
| "jtruthy (JObj kvs) = True"

text \<open>Truthiness of a value that may be \<^verbatim>\<open>undefined\<close>.\<close>

definition otruthy :: "json option \<Rightarrow> bool" where
  "otruthy x = (case x of None \<Rightarrow> False | Some v \<Rightarrow> jtruthy v)"

text \<open>
  \<^verbatim>\<open>v.key\<close> for a named (non-numeric, non-builtin) key, on a value that is not
  \<^verbatim>\<open>null\<close>: only an object has such a property.
\<close>

fun getProp :: "json \<Rightarrow> string \<Rightarrow> json option" where
  "getProp (JObj kvs) k = map_of kvs k"
| "getProp v k = None"

text \<open>\<^verbatim>\<open>v[0]\<close> on a value that is not \<^verbatim>\<open>null\<close>.\<close>

fun index0 :: "json \<Rightarrow> json option" where
  "index0 (JArr xs) = (case xs of [] \<Rightarrow> None | x # _ \<Rightarrow> Some x)"
| "index0 (JStr s) = (case s of [] \<Rightarrow> None | c # _ \<Rightarrow> Some (JStr [c]))"
| "index0 (JObj kvs) = map_of kvs ''0''"
| "index0 v = None"

text \<open>\<^verbatim>\<open>obj.key = v\<close> on an object: an existing key keeps its place, a new one goes last.\<close>

fun setProp :: "(string \<times> json) list \<Rightarrow> string \<Rightarrow> json \<Rightarrow> (string \<times> json) list" where
  "setProp [] k v = [(k, v)]"
| "setProp ((k', v') # kvs) k v = (if k' = k then (k, v) # kvs else (k', v') # setProp kvs k v)"

section \<open>The table encoding: \<^verbatim>\<open>NightVisionService.formatAsTable\<close>\<close>

text \<open>
  \<^verbatim>\<open>r[i]?.toString().length || 0\<close>: the length of cell \<open>i\<close> of row \<open>r\<close>, and 0 where the
  row has no such cell.
\<close>

definition cellLength :: "string list \<Rightarrow> nat \<Rightarrow> nat" where
  "cellLength r i = (if i < length r then length (r ! i) else 0)"

text \<open>
  \<^verbatim>\<open>Math.max(...rows.map(r => r[i]?.toString().length || 0))\<close>. The function is only
  reached with at least one row; on no rows JavaScript gives \<open>-Infinity\<close>, which the
  enclosing \<^verbatim>\<open>Math.max(h.length, _)\<close> turns into \<open>h.length\<close>, as the 0 here does.
\<close>

definition maxDataLength :: "string list list \<Rightarrow> nat \<Rightarrow> nat" where
  "maxDataLength rows i = foldr max (map (\<lambda>r. cellLength r i) rows) 0"

definition colWidths :: "string list \<Rightarrow> string list list \<Rightarrow> nat list" where
  "colWidths headers rows =
     map (\<lambda>i. max (length (headers ! i)) (maxDataLength rows i)) [0..<length headers]"

text \<open>\<^verbatim>\<open>colWidths[i]\<close> as \<^verbatim>\<open>padEnd\<close> reads it: an index past the end is \<^verbatim>\<open>undefined\<close>, which pads to 0.\<close>

definition widthAt :: "nat list \<Rightarrow> nat \<Rightarrow> nat" where
  "widthAt ws i = (if i < length ws then ws ! i else 0)"

definition headerCells :: "string list \<Rightarrow> nat list \<Rightarrow> string list" where
  "headerCells headers ws = map (\<lambda>i. padEnd (headers ! i) (widthAt ws i)) [0..<length headers]"

definition separatorCells :: "nat list \<Rightarrow> string list" where
  "separatorCells ws = map (\<lambda>w. replicate w CHR ''-'') ws"

definition dataCells :: "nat list \<Rightarrow> string list \<Rightarrow> string list" where
  "dataCells ws row = map (\<lambda>i. padEnd (row ! i) (widthAt ws i)) [0..<length row]"

definition tableLines :: "string list \<Rightarrow> string list list \<Rightarrow> string list" where
  "tableLines headers rows =
     (let ws = colWidths headers rows;
          headerRow = join '' | '' (headerCells headers ws);
          separatorRow = join ''-+-'' (separatorCells ws);
          dataRows = map (\<lambda>row. join '' | '' (dataCells ws row)) rows
      in headerRow # separatorRow # dataRows)"

definition formatAsTable :: "string list \<Rightarrow> string list list \<Rightarrow> string" where
  "formatAsTable headers rows =
     (if headers = [] \<or> rows = [] then ''No data to display''
      else join [newline] (tableLines headers rows))"

section \<open>Configuration, errors and the outside world\<close>

text \<open>\<^verbatim>\<open>ENVIRONMENT.CURRENT_API_URL\<close> of \<^verbatim>\<open>config/environment.ts\<close>.\<close>

definition CURRENT_API_URL :: string where
  "CURRENT_API_URL = ''https://api.nightvision.net/api/v1/''"

text \<open>\<^verbatim>\<open>type OutputFormat = 'text' | 'json' | 'table'\<close>; every value is a non-empty string.\<close>

datatype OutputFormat = FText | FJson | FTable

fun formatName :: "OutputFormat \<Rightarrow> string" where
  "formatName FText = ''text''"
| "formatName FJson = ''json''"
| "formatName FTable = ''table''"

text \<open>
  A thrown value. \<open>Error name message\<close> is an ordinary exception object (\<^verbatim>\<open>new Error(m)\<close> has
  the name \<^verbatim>\<open>Error\<close>; the runtime's own are \<^verbatim>\<open>TypeError\<close>, \<^verbatim>\<open>SyntaxError\<close>);
  \<open>AxiosError status detail message\<close> is the HTTP client's error: the response status when
  there was a response, and the \<^verbatim>\<open>detail\<close> field of the response body when it has one.
\<close>

datatype error =
    Error string string
  | AxiosError "nat option" "string option" string

fun message :: "error \<Rightarrow> string" where
  "message (Error n m) = m"
| "message (AxiosError st d m) = m"

fun isAxiosError :: "error \<Rightarrow> bool" where
  "isAxiosError (Error n m) = False"
| "isAxiosError (AxiosError st d m) = True"

fun responseStatus :: "error \<Rightarrow> nat option" where
  "responseStatus (Error n m) = None"
| "responseStatus (AxiosError st d m) = st"

fun responseDetail :: "error \<Rightarrow> string option" where
  "responseDetail (Error n m) = None"
| "responseDetail (AxiosError st d m) = d"

abbreviation newError :: "string \<Rightarrow> error" where
  "newError m \<equiv> Error ''Error'' m"

text \<open>An error in a template string, \<^verbatim>\<open>`${error}`\<close>: \<^verbatim>\<open>Error.prototype.toString\<close>.\<close>

definition nameAndMessage :: "string \<Rightarrow> string \<Rightarrow> string" where
  "nameAndMessage n m = (if m = [] then n else if n = [] then m else n @ '': '' @ m)"

fun errorString :: "error \<Rightarrow> string" where
  "errorString (Error n m) = nameAndMessage n m"
| "errorString (AxiosError st d m) = nameAndMessage ''AxiosError'' m"

text \<open>\<^verbatim>\<open>`${statusCode}`\<close>, where a missing response leaves the status \<^verbatim>\<open>undefined\<close>.\<close>

definition statusString :: "nat option \<Rightarrow> string" where
  "statusString st = (case st of None \<Rightarrow> ''undefined'' | Some n \<Rightarrow> showNat n)"

text \<open>An HTTP request as it is handed to the HTTP client.\<close>

datatype http_method = GET | POST | PUT | DELETE

datatype param_value = PNum int | PStr string | PStrs "string list" | PNums "int list"

type_synonym params = "(string \<times> param_value) list"

datatype body = NoBody | JsonBody json | FormData string string

record request =
  req_method :: http_method
  req_url :: string
  req_headers :: "(string \<times> string) list"
  req_params :: params
  req_data :: body

text \<open>
  What the process does to the outside, in order: a shell command it runs, an HTTP request
  it sends, a line it writes to the log (\<^verbatim>\<open>console.error\<close>).
\<close>

datatype event = Exec string | Http request | Log string

text \<open>
  The outside world answers: the shell with the two output streams of the command or with
  the error \<^verbatim>\<open>exec\<close> rejects with, the platform API with the response body or with the
  error the HTTP client throws. Each answer may depend on everything that happened before.
  \<^verbatim>\<open>JSON.parse\<close> and \<^verbatim>\<open>JSON.stringify(v, null, 2)\<close>, the temporary
  directory \<^verbatim>\<open>os.tmpdir()\<close>, the working directory \<^verbatim>\<open>process.cwd()\<close>, and what
  \<^verbatim>\<open>fs.existsSync\<close> and \<^verbatim>\<open>fs.accessSync(_, W_OK)\<close> find on disk are parameters too.
  So are the service's four private formatters of an untyped response,
  \<^verbatim>\<open>formatChecksAsText\<close>, \<^verbatim>\<open>formatChecksAsTable\<close>, \<^verbatim>\<open>formatPathsAsText\<close> and
  \<^verbatim>\<open>formatPathsAsTable\<close> (the table ones lay out their rows with \<open>formatAsTable\<close> above):
  nothing below depends on what they print, only on whether they throw.
\<close>

record env =
  exec_reply :: "event list \<Rightarrow> string \<Rightarrow> error + (string \<times> string)"
  http_reply :: "event list \<Rightarrow> request \<Rightarrow> error + json"
  json_parse :: "string \<Rightarrow> error + json"
  json_pretty :: "json \<Rightarrow> string"
  tmpdir :: string
  cwd :: string
  fs_exists :: "string \<Rightarrow> bool"
  fs_writable :: "string \<Rightarrow> bool"
  formatChecksAsText :: "json \<Rightarrow> error + string"
  formatChecksAsTable :: "json \<Rightarrow> error + string"
  formatPathsAsText :: "json \<Rightarrow> error + string"
  formatPathsAsTable :: "json \<Rightarrow> error + string"

section \<open>The state of the process\<close>

text \<open>
  What is on disk at the two fixed places of \<^verbatim>\<open>config/token.ts\<close>, \<^verbatim>\<open>CONFIG_DIR\<close>
  (\<^verbatim>\<open>~/.nightvision\<close>) and \<^verbatim>\<open>TOKEN_FILE\<close> (\<^verbatim>\<open>~/.nightvision/token\<close>): nothing, a directory,
  or a file with its content. A file-system call can also fail for a reason of the
  platform's (permissions, a read-only disk): \<open>io_error\<close> gives, for each kind of call, the
  error it then throws.
\<close>

datatype node = Dir | File string

datatype fs_op = MkDir | WriteFile | ReadFile | Unlink

text \<open>
  A callback waiting in the timer queue: the closure that the start-scan tool hands to
  \<^verbatim>\<open>setTimeout(_, 0)\<close>, with the variables it captured.
\<close>

record project_options =
  project :: "string option"
  project_id :: "string option"

record scan_options = project_options +
  auth :: "string option"
  auth_id :: "string option"
  no_auth :: "bool option"

datatype task = StartScanTask string scan_options OutputFormat

record state =
  token :: "string option"
  config_dir :: "node option"
  token_file :: "node option"
  io_error :: "fs_op \<Rightarrow> error option"
  trace :: "event list"
  timers :: "task list"

definition log :: "string \<Rightarrow> state \<Rightarrow> state" where
  "log msg s = s\<lparr>trace := trace s @ [Log msg]\<rparr>"

text \<open>\<^verbatim>\<open>NightVisionService.setToken\<close> and \<^verbatim>\<open>getToken\<close>.\<close>

definition setToken :: "string option \<Rightarrow> state \<Rightarrow> state" where
  "setToken t s = s\<lparr>token := t\<rparr>"

definition getToken :: "state \<Rightarrow> string option" where
  "getToken s = token s"

section \<open>The credential store: \<^verbatim>\<open>config/token.ts\<close>\<close>

text \<open>
  The file-system calls of the module, on its two fixed paths. Each throws the platform's
  error when there is one, and otherwise the error that the shape of the disk calls for
  (its message shortened to the error code).
\<close>

definition existsSync :: "node option \<Rightarrow> bool" where
  "existsSync n = (case n of None \<Rightarrow> False | Some x \<Rightarrow> True)"

text \<open>\<^verbatim>\<open>fs.mkdirSync(CONFIG_DIR, { recursive: true })\<close>.\<close>

definition mkdirSync :: "state \<Rightarrow> error + state" where
  "mkdirSync s =
     (case io_error s MkDir of
        Some err \<Rightarrow> Inl err
      | None \<Rightarrow>
          (case config_dir s of
             Some (File c) \<Rightarrow> Inl (newError ''EEXIST'')
           | Some Dir \<Rightarrow> Inr s
           | None \<Rightarrow> Inr (s\<lparr>config_dir := Some Dir\<rparr>)))"

text \<open>\<^verbatim>\<open>fs.writeFileSync(TOKEN_FILE, token)\<close>.\<close>

definition writeFileSync :: "string \<Rightarrow> state \<Rightarrow> error + state" where
  "writeFileSync content s =
     (case io_error s WriteFile of
        Some err \<Rightarrow> Inl err
      | None \<Rightarrow>
          (case config_dir s of
             None \<Rightarrow> Inl (newError ''ENOENT'')
           | Some (File c) \<Rightarrow> Inl (newError ''ENOTDIR'')
           | Some Dir \<Rightarrow>
               (case token_file s of
                  Some Dir \<Rightarrow> Inl (newError ''EISDIR'')
                | Some (File c) \<Rightarrow> Inr (s\<lparr>token_file := Some (File content)\<rparr>)
                | None \<Rightarrow> Inr (s\<lparr>token_file := Some (File content)\<rparr>))))"

text \<open>\<^verbatim>\<open>fs.readFileSync(TOKEN_FILE, 'utf8')\<close>.\<close>

definition readFileSync :: "state \<Rightarrow> error + string" where
  "readFileSync s =
     (case io_error s ReadFile of
        Some err \<Rightarrow> Inl err
      | None \<Rightarrow>
          (case token_file s of
             None \<Rightarrow> Inl (newError ''ENOENT'')
           | Some Dir \<Rightarrow> Inl (newError ''EISDIR'')
           | Some (File c) \<Rightarrow> Inr c))"

text \<open>\<^verbatim>\<open>fs.unlinkSync(TOKEN_FILE)\<close>.\<close>

definition unlinkSync :: "state \<Rightarrow> error + state" where
  "unlinkSync s =
     (case io_error s Unlink of
        Some err \<Rightarrow> Inl err
      | None \<Rightarrow>
          (case token_file s of
             None \<Rightarrow> Inl (newError ''ENOENT'')
           | Some Dir \<Rightarrow> Inl (newError ''EISDIR'')
           | Some (File c) \<Rightarrow> Inr (s\<lparr>token_file := None\<rparr>)))"

text \<open>\<^verbatim>\<open>loadToken\<close>: the trimmed content of the token file, or \<^verbatim>\<open>null\<close>; a failure is logged.\<close>

definition loadToken :: "state \<Rightarrow> string option \<times> state" where
  "loadToken s =
     (if existsSync (token_file s)
      then (case readFileSync s of
              Inr c \<Rightarrow> (Some (trim c), s)
            | Inl err \<Rightarrow> (None, log (''Failed to load token: '' @ errorString err) s))
      else (None, s))"

text \<open>\<^verbatim>\<open>saveToken\<close>: creates the directory when it is missing, then writes; a failure is logged.\<close>

definition saveToken :: "string \<Rightarrow> state \<Rightarrow> state" where
  "saveToken t s =
     (case (if existsSync (config_dir s) then Inr s else mkdirSync s) of
        Inl err \<Rightarrow> log (''Failed to save token: '' @ errorString err) s
      | Inr s1 \<Rightarrow>
          (case writeFileSync t s1 of
             Inl err \<Rightarrow> log (''Failed to save token: '' @ errorString err) s1
           | Inr s2 \<Rightarrow> s2))"

text \<open>\<^verbatim>\<open>clearToken\<close>: removes the token file when there is one; a failure is logged.\<close>

definition clearToken :: "state \<Rightarrow> state" where
  "clearToken s =
     (if existsSync (token_file s)
      then (case unlinkSync s of
              Inl err \<Rightarrow> log (''Failed to clear token: '' @ errorString err) s
            | Inr s1 \<Rightarrow> s1)
      else s)"

section \<open>The executor: \<^verbatim>\<open>executeCommand\<close> and \<^verbatim>\<open>apiRequest\<close>\<close>

text \<open>
  The argument list \<^verbatim>\<open>commandArgs\<close> that \<^verbatim>\<open>executeCommand\<close> builds: the caller's arguments,
  the format flag (every \<^typ>\<open>OutputFormat\<close> is truthy), the API endpoint flag, and the token
  flag when a token is held and not skipped.
\<close>

definition commandArgs :: "string option \<Rightarrow> string list \<Rightarrow> OutputFormat \<Rightarrow> bool \<Rightarrow> string list" where
  "commandArgs tok args format skipToken =
     args @ [''-F'', formatName format] @ [''--api-url'', CURRENT_API_URL]
       @ (if skipToken then [] else flagIf ''--token'' tok)"

text \<open>\<^verbatim>\<open>arg => arg.includes(' ') ? `"${arg}"` : arg\<close>.\<close>

definition quoteArg :: "string \<Rightarrow> string" where
  "quoteArg arg = (if includes_str arg '' '' then [CHR 0x22] @ arg @ [CHR 0x22] else arg)"

text \<open>\<^verbatim>\<open>['nightvision', ...commandArgs]\<close>, and the command line made of it.\<close>

definition argv :: "string option \<Rightarrow> string list \<Rightarrow> OutputFormat \<Rightarrow> bool \<Rightarrow> string list" where
  "argv tok args format skipToken = ''nightvision'' # commandArgs tok args format skipToken"

definition commandLine :: "string option \<Rightarrow> string list \<Rightarrow> OutputFormat \<Rightarrow> bool \<Rightarrow> string" where
  "commandLine tok args format skipToken = join '' '' (map quoteArg (argv tok args format skipToken))"

text \<open>Running a shell command: the command is recorded, the world answers.\<close>

definition execAsync :: "env \<Rightarrow> string \<Rightarrow> state \<Rightarrow> (error + (string \<times> string)) \<times> state" where
  "execAsync e command s =
     (exec_reply e (trace s) command, s\<lparr>trace := trace s @ [Exec command]\<rparr>)"

definition executeCommand ::
  "env \<Rightarrow> string list \<Rightarrow> OutputFormat \<Rightarrow> bool \<Rightarrow> state \<Rightarrow> (error + string) \<times> state" where
  "executeCommand e args format skipToken s =
     (let command = commandLine (token s) args format skipToken;
          s1 = log (''Executing: '' @ command) s;
          (r, s2) = execAsync e command s1
      in case r of
           Inl err \<Rightarrow>
             (Inl (newError (''NightVision command failed: '' @ message err)),
              log (''Failed to execute NightVision command: '' @ message err) s2)
         | Inr (stdout, stderr) \<Rightarrow>
             (let s3 = (if stderr \<noteq> [] \<and> trim stderr \<noteq> []
                        then log (''NightVision CLI warning/error: '' @ stderr) s2 else s2)
              in if take 2 args = [''swagger'', ''extract''] \<and> stderr \<noteq> [] \<and> trim stderr \<noteq> []
                 then (Inr (stdout @ (if stdout \<noteq> [] then [newline] else []) @ stderr),
                       log ''Including stderr in command output for API discovery'' s3)
                 else (Inr stdout, s3)))"

text \<open>\<^verbatim>\<open>isInstalled\<close>: any failure of the \<^verbatim>\<open>version\<close> command is \<open>False\<close>.\<close>

definition isInstalled :: "env \<Rightarrow> state \<Rightarrow> bool \<times> state" where
  "isInstalled e s =
     (case executeCommand e [''version''] FText False s of
        (Inl err, s') \<Rightarrow> (False, s')
      | (Inr out, s') \<Rightarrow> (True, s'))"

text \<open>The \<^verbatim>\<open>Authorization\<close> header: \<^verbatim>\<open>this.token ? `Token ${this.token}` : ''\<close>.\<close>

definition authorization :: "string option \<Rightarrow> string" where
  "authorization tok = (case tok of None \<Rightarrow> [] | Some t \<Rightarrow> if t = [] then [] else ''Token '' @ t)"

definition getApiHeaders :: "state \<Rightarrow> (string \<times> string) list" where
  "getApiHeaders s =
     [(''Authorization'', authorization (token s)), (''Content-Type'', ''application/json'')]"

text \<open>
  \<^verbatim>\<open>apiRequest\<close>: the request goes to the HTTP client; an error of the client's is thrown
  again as a plain \<^verbatim>\<open>Error\<close> whose message carries the status and the detail, any other
  error is thrown as it is.
\<close>

definition apiRequest ::
  "env \<Rightarrow> string \<Rightarrow> http_method \<Rightarrow> params \<Rightarrow> body \<Rightarrow> bool \<Rightarrow> state \<Rightarrow> (error + json) \<times> state" where
  "apiRequest e endpoint method ps data isFormData s =
     (let url = CURRENT_API_URL @ endpoint;
          headers = (if isFormData then [(''Authorization'', authorization (token s))]
                     else getApiHeaders s);
          req = \<lparr>req_method = method, req_url = url, req_headers = headers,
                 req_params = ps, req_data = data\<rparr>;
          r = http_reply e (trace s) req;
          s1 = s\<lparr>trace := trace s @ [Http req]\<rparr>
      in case r of
           Inr response \<Rightarrow> (Inr response, s1)
         | Inl err \<Rightarrow>
             (if isAxiosError err
              then (Inl (newError (''API request failed ('' @ statusString (responseStatus err)
                          @ ''): '' @ orElse (responseDetail err) (message err))), s1)
              else (Inl err, s1)))"

section \<open>API-backed operations\<close>

text \<open>
  The options of \<^verbatim>\<open>getScanChecks\<close> and \<^verbatim>\<open>getScanPaths\<close>. Both have \<^verbatim>\<open>page\<close> and
  \<^verbatim>\<open>page_size\<close>; the checks add \<^verbatim>\<open>name\<close>, \<^verbatim>\<open>check_kind\<close> and the two required arrays,
  the paths add \<^verbatim>\<open>filter\<close>.
\<close>

datatype severity = critical | high | medium | low | info | unknown | unspecified

fun severityName :: "severity \<Rightarrow> string" where
  "severityName critical = ''critical''"
| "severityName high = ''high''"
| "severityName medium = ''medium''"
| "severityName low = ''low''"
| "severityName info = ''info''"
| "severityName unknown = ''unknown''"
| "severityName unspecified = ''unspecified''"

record page_options =
  page :: "int option"
  page_size :: "int option"

record checks_options = page_options +
  name :: "string option"
  check_kind :: "string option"
  severity :: "severity list"
  status :: "int list"

record paths_options = page_options +
  filter_opt :: "string option"

text \<open>A query parameter that is set only when the option is truthy.\<close>

definition numParamIf :: "string \<Rightarrow> int option \<Rightarrow> params" where
  "numParamIf k x = (case x of None \<Rightarrow> [] | Some n \<Rightarrow> if n = 0 then [] else [(k, PNum n)])"

definition strParamIf :: "string \<Rightarrow> string option \<Rightarrow> params" where
  "strParamIf k x = (case x of None \<Rightarrow> [] | Some v \<Rightarrow> if v = [] then [] else [(k, PStr v)])"

text \<open>\<^verbatim>\<open>options.page_size || 100\<close>.\<close>

definition pageSizeOrDefault :: "int option \<Rightarrow> int" where
  "pageSizeOrDefault x = (case x of None \<Rightarrow> 100 | Some n \<Rightarrow> if n = 0 then 100 else n)"

text \<open>The \<^verbatim>\<open>params\<close> object of \<^verbatim>\<open>getScanChecks\<close>, its keys in the order they are set.\<close>

definition checksParams :: "checks_options \<Rightarrow> params" where
  "checksParams options =
     numParamIf ''page'' (page options)
     @ [(''page_size'', PNum (pageSizeOrDefault (page_size options)))]
     @ strParamIf ''name'' (name options)
     @ strParamIf ''check_kind'' (check_kind options)
     @ [(''severity'', PStrs (map severityName (severity options))),
        (''status'', PNums (status options))]"

text \<open>The \<^verbatim>\<open>params\<close> object of \<^verbatim>\<open>getScanPaths\<close>.\<close>

definition pathsParams :: "paths_options \<Rightarrow> params" where
  "pathsParams options =
     numParamIf ''page'' (page options)
     @ numParamIf ''page_size'' (page_size options)
     @ strParamIf ''filter'' (filter_opt options)"

text \<open>
  What the HTTP client makes of a \<^verbatim>\<open>params\<close> object. \<^verbatim>\<open>apiRequest\<close> hands the object to
  \<^verbatim>\<open>axios\<close> and sets no \<^verbatim>\<open>paramsSerializer\<close>, so the client's default serialisation
  applies: a scalar is one entry under its key, and an array is one entry for each element
  under the key followed by a pair of brackets (\<^verbatim>\<open>severity[]=critical&severity[]=high\<close>),
  none for an empty array. An entry is the key and the value as the server decodes them;
  a number stays a number here.
\<close>

datatype query_value = QNum int | QStr string

fun paramEntries :: "string \<times> param_value \<Rightarrow> (string \<times> query_value) list" where
  "paramEntries (k, PNum n) = [(k, QNum n)]"
| "paramEntries (k, PStr v) = [(k, QStr v)]"
| "paramEntries (k, PStrs vs) = map (\<lambda>v. (k @ ''[]'', QStr v)) vs"
| "paramEntries (k, PNums ns) = map (\<lambda>n. (k @ ''[]'', QNum n)) ns"

definition queryEntries :: "params \<Rightarrow> (string \<times> query_value) list" where
  "queryEntries ps = concat (map paramEntries ps)"

text \<open>The part of \<^verbatim>\<open>getScanChecks\<close> and \<^verbatim>\<open>getScanPaths\<close> that encodes the response.\<close>

definition encodeChecks :: "env \<Rightarrow> OutputFormat \<Rightarrow> json \<Rightarrow> error + string" where
  "encodeChecks e format response =
     (case format of
        FJson \<Rightarrow> Inr (json_pretty e response)
      | FText \<Rightarrow> formatChecksAsText e response
      | FTable \<Rightarrow> formatChecksAsTable e response)"

definition encodePaths :: "env \<Rightarrow> OutputFormat \<Rightarrow> json \<Rightarrow> error + string" where
  "encodePaths e format response =
     (case format of
        FJson \<Rightarrow> Inr (json_pretty e response)
      | FText \<Rightarrow> formatPathsAsText e response
      | FTable \<Rightarrow> formatPathsAsTable e response)"

definition getScanChecks ::
  "env \<Rightarrow> string \<Rightarrow> checks_options \<Rightarrow> OutputFormat \<Rightarrow> state \<Rightarrow> (error + string) \<times> state" where
  "getScanChecks e scanId options format s =
     (let s1 = log (''Getting scan checks for '' @ scanId @ '' via API endpoint...'') s;
          (r, s2) = apiRequest e (''scans/'' @ scanId @ ''/checks/'') GET
                      (checksParams options) NoBody False s1;
          out = (case r of Inl err \<Rightarrow> Inl err | Inr response \<Rightarrow> encodeChecks e format response)
      in case out of
           Inr text \<Rightarrow> (Inr text, s2)
         | Inl err \<Rightarrow>
             (Inl (newError (''Failed to get scan checks: '' @ message err)),
              log (''Error getting scan checks: '' @ errorString err) s2))"

definition getScanPaths ::
  "env \<Rightarrow> string \<Rightarrow> paths_options \<Rightarrow> OutputFormat \<Rightarrow> state \<Rightarrow> (error + string) \<times> state" where
  "getScanPaths e scanId options format s =
     (let s1 = log (''Getting scan paths for '' @ scanId @ '' via API endpoint...'') s;
          (r, s2) = apiRequest e (''scans/'' @ scanId @ ''/paths/'') GET
                      (pathsParams options) NoBody False s1;
          out = (case r of Inl err \<Rightarrow> Inl err | Inr response \<Rightarrow> encodePaths e format response)
      in case out of
           Inr text \<Rightarrow> (Inr text, s2)
         | Inl err \<Rightarrow>
             (Inl (newError (''Failed to get scan paths: '' @ message err)),
              log (''Error getting scan paths: '' @ errorString err) s2))"

text \<open>
  \<^verbatim>\<open>getProjectByName\<close>. \<open>firstResult\<close> is \<^verbatim>\<open>response.results[0]\<close> when the guard
  \<^verbatim>\<open>!response || !response.results || !response.results[0]\<close> lets it through.
\<close>

definition firstResult :: "json \<Rightarrow> json option" where
  "firstResult response =
     (if jtruthy response
      then (case getProp response ''results'' of
              None \<Rightarrow> None
            | Some results \<Rightarrow>
                (if jtruthy results
                 then (case index0 results of
                         None \<Rightarrow> None
                       | Some x \<Rightarrow> if jtruthy x then Some x else None)
                 else None))
      else None)"

definition getProjectByName :: "env \<Rightarrow> string \<Rightarrow> state \<Rightarrow> (error + json) \<times> state" where
  "getProjectByName e projectName s =
     (let s1 = log (''Getting details for project: '' @ projectName) s;
          (r, s2) = apiRequest e (''projects/name/'' @ projectName @ ''/'') GET [] NoBody False s1;
          out = (case r of
                   Inl err \<Rightarrow> Inl err
                 | Inr response \<Rightarrow>
                     (case firstResult response of
                        None \<Rightarrow> Inl (newError (''Project '' @ [CHR 0x27] @ projectName @ [CHR 0x27]
                                        @ '' not found or has no data.''))
                      | Some x \<Rightarrow> Inr x))
      in case out of
           Inr x \<Rightarrow> (Inr x, s2)
         | Inl err \<Rightarrow>
             (if isAxiosError err \<and> responseStatus err = Some 404
              then (Inl (newError (''Project '' @ [CHR 0x27] @ projectName @ [CHR 0x27]
                          @ '' not found. Please check the project name and try again.'')), s2)
              else (Inl (newError (''Failed to get project details: '' @ message err)),
                    log (''Error getting project details: '' @ message err) s2)))"

section \<open>Paths\<close>

text \<open>
  The functions of the platform's \<^verbatim>\<open>path\<close> module that the service calls, in their POSIX
  form. \<open>dirname\<close> ignores trailing slashes and cuts the path before the slash that
  precedes its last component; \<open>basename\<close> is that last component.
\<close>

definition dirname :: "string \<Rightarrow> string" where
  "dirname path =
     (if path = [] then ''.''
      else (let hasRoot = (hd path = CHR ''/'');
                rest = dropWhile (\<lambda>c. c \<noteq> CHR ''/'')
                         (dropWhile (\<lambda>c. c = CHR ''/'') (rev (tl path)))
            in if rest = [] then (if hasRoot then ''/'' else ''.'')
               else if hasRoot \<and> length rest = 1 then ''//''
               else take (length rest) path))"

definition basename :: "string \<Rightarrow> string" where
  "basename path = rev (takeWhile (\<lambda>c. c \<noteq> CHR ''/'') (dropWhile (\<lambda>c. c = CHR ''/'') (rev path)))"

text \<open>The pieces of a path between slashes.\<close>

fun segments :: "string \<Rightarrow> string list" where
  "segments [] = [[]]"
| "segments (c # cs) =
     (if c = CHR ''/'' then [] # segments cs
      else (case segments cs of [] \<Rightarrow> [[c]] | x # xs \<Rightarrow> (c # x) # xs))"

text \<open>
  \<^verbatim>\<open>normalizeString\<close>: empty pieces and \<^verbatim>\<open>.\<close> are dropped, \<^verbatim>\<open>..\<close> removes the piece before
  it, or is kept when there is none to remove and the path may climb above its start.
\<close>

definition normStep :: "bool \<Rightarrow> string list \<Rightarrow> string \<Rightarrow> string list" where
  "normStep allowAboveRoot res seg =
     (if seg = [] \<or> seg = ''.'' then res
      else if seg = ''..''
      then (if res \<noteq> [] \<and> last res \<noteq> ''..'' then butlast res
            else if allowAboveRoot then res @ [''..''] else res)
      else res @ [seg])"

definition normalizeString :: "bool \<Rightarrow> string \<Rightarrow> string" where
  "normalizeString allowAboveRoot path =
     join ''/'' (foldl (normStep allowAboveRoot) [] (segments path))"

definition normalize :: "string \<Rightarrow> string" where
  "normalize path =
     (if path = [] then ''.''
      else (let isAbsolute = (hd path = CHR ''/'');
                trailingSeparator = (last path = CHR ''/'');
                p = normalizeString (\<not> isAbsolute) path
            in if p = [] then (if isAbsolute then ''/'' else if trailingSeparator then ''./'' else ''.'')
               else (if isAbsolute then ''/'' else []) @ p @ (if trailingSeparator then ''/'' else [])))"

text \<open>\<^verbatim>\<open>path.join(...args)\<close>.\<close>

definition path_join :: "string list \<Rightarrow> string" where
  "path_join args =
     (let parts = filter (\<lambda>a. a \<noteq> []) args
      in if parts = [] then ''.'' else normalize (join ''/'' parts))"

text \<open>
  \<^verbatim>\<open>path.resolve(...args)\<close>: the arguments are read from the right, and then the working
  directory, until one of them is absolute.
\<close>

fun resolveLoop :: "string list \<Rightarrow> string \<Rightarrow> string \<times> bool" where
  "resolveLoop [] acc = (acc, False)"
| "resolveLoop (p # ps) acc =
     (if p = [] then resolveLoop ps acc
      else if hd p = CHR ''/'' then (p @ ''/'' @ acc, True)
      else resolveLoop ps (p @ ''/'' @ acc))"

definition path_resolve :: "string \<Rightarrow> string list \<Rightarrow> string" where
  "path_resolve workdir args =
     (let (resolvedPath, resolvedAbsolute) = resolveLoop (rev (workdir # args)) [];
          p = normalizeString (\<not> resolvedAbsolute) resolvedPath
      in if resolvedAbsolute then ''/'' @ p else if p \<noteq> [] then p else ''.'')"

section \<open>API discovery: \<^verbatim>\<open>discoverApi\<close>\<close>

record discover_options = project_options +
  lang :: string
  target :: "string option"
  target_id :: "string option"
  output_opt :: string
  exclude :: "string option"
  version :: "string option"
  no_upload :: "bool option"
  dump_code :: "bool option"
  verbose :: "bool option"

text \<open>Every relative source path is resolved against the project path; each one is logged.\<close>

fun absoluteSourcePaths :: "env \<Rightarrow> string \<Rightarrow> string list \<Rightarrow> state \<Rightarrow> string list \<times> state" where
  "absoluteSourcePaths e workspacePath [] s = ([], s)"
| "absoluteSourcePaths e workspacePath (sourcePath # rest) s =
     (if \<not> startsWith sourcePath ''/''
      then (let absolutePath = path_resolve (cwd e) [workspacePath, sourcePath];
                s1 = log (''Converting relative path '' @ [CHR 0x27] @ sourcePath @ [CHR 0x27]
                          @ '' to absolute path '' @ [CHR 0x27] @ absolutePath @ [CHR 0x27]) s;
                (ps, s2) = absoluteSourcePaths e workspacePath rest s1
            in (absolutePath # ps, s2))
      else (let (ps, s2) = absoluteSourcePaths e workspacePath rest s
            in (sourcePath # ps, s2)))"

text \<open>
  The output file, first pass: an absolute path whose directory is the root or does not
  exist goes to the temporary directory under its base name; a relative path is resolved
  against the project path.
\<close>

definition chooseOutput :: "env \<Rightarrow> string \<Rightarrow> string \<Rightarrow> state \<Rightarrow> string \<times> state" where
  "chooseOutput e workspacePath out s =
     (if startsWith out ''/''
      then (if dirname out = ''/'' \<or> \<not> fs_exists e (dirname out)
            then (let outputFile = path_join [tmpdir e, basename out]
                  in (outputFile,
                      log (''Warning: Redirecting output from '' @ out @ '' to '' @ outputFile
                           @ '' due to potential permissions issues'') s))
            else (out, s))
      else (let outputFile = path_resolve (cwd e) [workspacePath, out]
            in (outputFile,
                log (''Converting relative output path '' @ [CHR 0x27] @ out @ [CHR 0x27]
                     @ '' to absolute path '' @ [CHR 0x27] @ outputFile @ [CHR 0x27]) s)))"

text \<open>Second pass: a directory that cannot be written to sends the file to the temporary directory.\<close>

definition vetOutput :: "env \<Rightarrow> string \<Rightarrow> state \<Rightarrow> string \<times> state" where
  "vetOutput e outputFile s =
     (if fs_writable e (dirname outputFile) then (outputFile, s)
      else (path_join [tmpdir e, basename outputFile],
            log ''Output directory is not writable, redirecting to temp directory'' s))"

text \<open>The argument list of the \<^verbatim>\<open>swagger extract\<close> command. The verbose flag is never passed.\<close>

definition discoverArgs :: "string list \<Rightarrow> discover_options \<Rightarrow> string \<Rightarrow> string list" where
  "discoverArgs sourcePaths options outputFile =
     [''swagger'', ''extract''] @ sourcePaths
     @ [''--lang'', lang options]
     @ flagIf ''--target'' (target options)
     @ flagIf ''--target-id'' (target_id options)
     @ flagIf ''--project'' (project options)
     @ flagIf ''--project-id'' (project_id options)
     @ [''--output'', outputFile]
     @ flagIf ''--exclude'' (exclude options)
     @ flagIf ''--version'' (version options)
     @ (if no_upload options \<noteq> Some False then [''--no-upload''] else [])
     @ (if dump_code options = Some True then [''--dump-code''] else [])"

text \<open>The error that \<^verbatim>\<open>discoverApi\<close> throws in place of a failure of the command.\<close>

definition discoverError :: "string list \<Rightarrow> discover_options \<Rightarrow> string \<Rightarrow> error \<Rightarrow> error" where
  "discoverError sourcePaths options outputFile cliError =
     (let errorMessage = message cliError
      in if includes_str errorMessage ''0 paths discovered''
         then newError (''No API endpoints found in ['' @ join '', '' sourcePaths @ ''] using ''
                        @ lang options @ ''. Try more specific directories.'')
         else if includes_str errorMessage ''read-only file system''
                 \<or> includes_str errorMessage ''permission denied''
                 \<or> includes_str errorMessage ''no such file or directory''
         then newError (''File system error: Unable to write to '' @ outputFile @ ''. '' @ [newline]
                        @ ''          '' @ [newline]
                        @ ''This may be due to permissions issues. Try specifying a different output location where you have write permissions.'')
         else if includes_str errorMessage ''maxBuffer length exceeded''
         then newError (''Output too large. Try analyzing smaller directories or using the ''
                        @ [CHR 0x27] @ ''exclude'' @ [CHR 0x27] @ '' parameter to filter files.'')
         else cliError)"

text \<open>The opening of \<^verbatim>\<open>discoverApi\<close>: three log lines, then the source paths.\<close>

definition discoverSetup :: "env \<Rightarrow> string \<Rightarrow> string list \<Rightarrow> state \<Rightarrow> string list \<times> state" where
  "discoverSetup e projectPath sourcePaths s =
     (let s1 = log ''Discovering API endpoints for source code using swagger extract...'' s;
          s2 = log (''Using project path: '' @ projectPath) s1;
          s3 = log (''Current working directory: '' @ cwd e) s2
      in absoluteSourcePaths e projectPath sourcePaths s3)"

text \<open>The two passes over the output path.\<close>

definition outputFileFor :: "env \<Rightarrow> string \<Rightarrow> string \<Rightarrow> state \<Rightarrow> string \<times> state" where
  "outputFileFor e projectPath out s =
     (let (outputFile, s1) = chooseOutput e projectPath out s
      in vetOutput e outputFile s1)"

text \<open>The inner \<^verbatim>\<open>try\<close>: the command is run; its output gets the file path appended.\<close>

definition discoverCommand ::
  "env \<Rightarrow> string list \<Rightarrow> string list \<Rightarrow> discover_options \<Rightarrow> OutputFormat \<Rightarrow> string \<Rightarrow> state
     \<Rightarrow> (error + string) \<times> state" where
  "discoverCommand e sourcePaths absPaths options format outputFile s =
     (let (r, s1) = executeCommand e (discoverArgs absPaths options outputFile) format False s
      in case r of
           Inr result \<Rightarrow>
             (Inr (result @ [newline] @ ''OpenAPI Specification File: '' @ outputFile),
              log ''Returning the command output with file path information appended''
                (log (''Output file location: '' @ outputFile)
                  (log (''Command result: '' @ take 500 result
                        @ (if length result > 500 then ''...'' else [])) s1)))
         | Inl cliError \<Rightarrow>
             (Inl (discoverError sourcePaths options outputFile cliError), s1))"

definition discoverApi ::
  "env \<Rightarrow> string list \<Rightarrow> discover_options \<Rightarrow> OutputFormat \<Rightarrow> string \<Rightarrow> state
     \<Rightarrow> (error + string) \<times> state" where
  "discoverApi e sourcePaths options format projectPath s =
     (let (absPaths, s1) = discoverSetup e projectPath sourcePaths s;
          (out, s2) =
            (if lang options = [] then (Inl (newError ''Language is required for API discovery''), s1)
             else (let (outputFile, s') = outputFileFor e projectPath (output_opt options) s1
                   in discoverCommand e sourcePaths absPaths options format outputFile s'))
      in case out of
           Inr text \<Rightarrow> (Inr text, s2)
         | Inl err \<Rightarrow>
             (Inl (newError (''Failed to discover API endpoints: '' @ message err)),
              log (''Error discovering API endpoints: '' @ message err) s2))"

section \<open>Authentication operations\<close>

text \<open>A few characters that a string literal cannot hold.\<close>

abbreviation nl :: string where
  "nl \<equiv> [newline]"

abbreviation sq :: string where
  "sq \<equiv> [CHR 0x27]"

abbreviation dq :: string where
  "dq \<equiv> [CHR 0x22]"

text \<open>\<^verbatim>\<open>output.trim().split('\n').pop()?.trim() || ''\<close>: the last line of the output, trimmed.\<close>

definition lastLine :: "string \<Rightarrow> string" where
  "lastLine out = trim (last (split_lines (trim out)))"

text \<open>
  \<^verbatim>\<open>createToken\<close>: the interactive login is attempted and its failure only logged; then the
  \<^verbatim>\<open>token create\<close> command runs without the current token, and its last output line is the
  new token. Any failure is thrown again with the instruction to log in by hand.
\<close>

definition createToken :: "env \<Rightarrow> string option \<Rightarrow> state \<Rightarrow> (error + string) \<times> state" where
  "createToken e expiryDate s =
     (let s1 = log ''Attempting to login to NightVision before creating a new token...'' s;
          (lr, s2) = execAsync e (''nightvision login --api-url '' @ CURRENT_API_URL) s1;
          s3 = (case lr of
                  Inr out \<Rightarrow> log ''Login completed successfully.'' s2
                | Inl loginError \<Rightarrow>
                    log (''Login attempt encountered an error: '' @ message loginError) s2);
          (r, s4) = executeCommand e ([''token'', ''create''] @ flagIf ''-d'' expiryDate) FText True s3;
          (res, s5) =
            (case r of
               Inl err \<Rightarrow> (Inl err, s4)
             | Inr out \<Rightarrow>
                 (let newToken = lastLine out
                  in if newToken = []
                     then (Inl (newError (''Failed to create new token. Please manually run: nightvision login --api-url ''
                                 @ CURRENT_API_URL)), s4)
                     else (Inr newToken,
                           log ''This token can be used with both the NightVision CLI and API requests.''
                             (log (''Successfully created a new authentication token: ''
                                   @ take 8 newToken @ ''...'')
                               (if length newToken < 20
                                then log (''Warning: Created token has an unexpected format: '' @ newToken) s4
                                else s4)))))
      in case res of
           Inr newToken \<Rightarrow> (Inr newToken, s5)
         | Inl err \<Rightarrow>
             (Inl (newError (message err @ nl @ nl
                     @ ''Please manually run the following command in your terminal to authenticate:''
                     @ nl @ ''nightvision login --api-url '' @ CURRENT_API_URL)), s5))"

text \<open>
  \<^verbatim>\<open>!!(response.user && response.user.id)\<close>, on a response that is not \<^verbatim>\<open>null\<close>.
\<close>

definition hasUserId :: "json \<Rightarrow> bool" where
  "hasUserId response =
     (case getProp response ''user'' of
        None \<Rightarrow> False
      | Some user \<Rightarrow> jtruthy user \<and> otruthy (getProp user ''id''))"

text \<open>
  \<^verbatim>\<open>verifyProductionAuth\<close>: without a token, \<open>False\<close> at once and nothing is sent. Otherwise the
  current-user endpoint is asked; a failed request, and a \<^verbatim>\<open>null\<close> response (reading its
  \<^verbatim>\<open>user\<close> throws a \<^verbatim>\<open>TypeError\<close>), are logged and give \<open>False\<close>. The function never throws.
\<close>

definition verifyProductionAuth :: "env \<Rightarrow> state \<Rightarrow> bool \<times> state" where
  "verifyProductionAuth e s =
     (if falsy (token s) then (False, s)
      else (let (r, s1) = apiRequest e ''user/me/'' GET [] NoBody False s
            in case r of
                 Inl err \<Rightarrow> (False, log (''Token validation failed: '' @ errorString err) s1)
               | Inr response \<Rightarrow>
                   (if response = JNull
                    then (False, log (''Token validation failed: TypeError: Cannot read properties of null (reading ''
                                      @ sq @ ''user'' @ sq @ '')'') s1)
                    else (hasUserId response, s1))))"

section \<open>The tool registry\<close>

text \<open>
  The response envelope of a tool: its text blocks, the error flag when it is set, and the
  response type of the prompt that the first phase of API discovery attaches.
\<close>

record envelope =
  content :: "string list"
  isError :: "bool option"
  promptResponse :: "string option"

definition textResult :: "string \<Rightarrow> envelope" where
  "textResult t = \<lparr>content = [t], isError = None, promptResponse = None\<rparr>"

definition errorResult :: "string \<Rightarrow> envelope" where
  "errorResult t = \<lparr>content = [t], isError = Some True, promptResponse = None\<rparr>"

text \<open>The answer of every guarded tool when no token is held.\<close>

definition notAuthenticated :: envelope where
  "notAuthenticated =
     errorResult ''Not authenticated. Please use the authenticate tool to set a token first.''"

subsection \<open>The authenticate tool\<close>

record authenticate_args =
  token_param :: "string option"
  create_new :: "bool option"
  expiry_date :: "string option"

definition loginHint :: string where
  "loginHint = ''nightvision login --api-url '' @ CURRENT_API_URL"

text \<open>
  The branch for \<^verbatim>\<open>create_new\<close>. Three lines tell the user about the interactive login
  (the warning sign that opens the first one is outside the 8-bit characters and is left
  out). The new token is set and saved, then validated.
\<close>

definition authenticateCreateNew :: "env \<Rightarrow> authenticate_args \<Rightarrow> state \<Rightarrow> envelope \<times> state" where
  "authenticateCreateNew e args s =
     (let s0 = log (''Please switch to that terminal and complete the login process when prompted.'' @ nl)
                 (log ''A login prompt will appear in the terminal where the MCP server is running.''
                   (log (nl @ '' The NightVision CLI requires an interactive login session to create a new token.'') s));
          (r, s1) = createToken e (expiry_date args) s0
      in case r of
           Inl err \<Rightarrow>
             (errorResult (''Failed to create new token: '' @ message err @ nl @ nl
                @ ''The NightVision CLI requires an interactive login session. Please run the following command in your terminal:''
                @ nl @ loginHint), s1)
         | Inr newToken \<Rightarrow>
             (let s2 = saveToken newToken (setToken (Some newToken) s1);
                  (isValid, s3) = verifyProductionAuth e s2
              in if \<not> isValid
                 then (errorResult (''Created a new token (starts with: '' @ take 8 newToken
                         @ ''...) but it couldn'' @ sq @ ''t be validated.'' @ nl @ nl
                         @ ''The login process may not have completed successfully. Please try again or run the following command in your terminal:''
                         @ nl @ loginHint), s3)
                 else (textResult (''Successfully created and saved a new authentication token. Token starts with: ''
                         @ take 8 newToken @ ''...'' @ nl
                         @ ''This token can be used with both the NightVision CLI and API requests.''), s3)))"

text \<open>
  The branch for a provided token: set, saved, validated, and on failure reset and removed
  from disk. (The \<^verbatim>\<open>catch\<close> around the validation does the same; it is never entered, as
  \<^verbatim>\<open>verifyProductionAuth\<close> does not throw.)
\<close>

definition authenticateProvided :: "env \<Rightarrow> string \<Rightarrow> state \<Rightarrow> envelope \<times> state" where
  "authenticateProvided e tok s =
     (let s1 = saveToken tok (setToken (Some tok) s);
          (isValid, s2) = verifyProductionAuth e s1
      in if \<not> isValid
         then (errorResult (''The provided token is not valid.'' @ nl @ nl
                 @ ''Please run the following command and then try again:'' @ nl @ loginHint),
               clearToken (setToken None s2))
         else (textResult (''Successfully authenticated. Token starts with: '' @ take 8 tok @ ''...''), s2))"

text \<open>The branch without parameters: the status of the current token.\<close>

definition authenticateStatus :: "env \<Rightarrow> state \<Rightarrow> envelope \<times> state" where
  "authenticateStatus e s =
     (case getToken s of
        None \<Rightarrow> (textResult ''Not authenticated. Please provide a token or create a new one.'', s)
      | Some currentToken \<Rightarrow>
          (if currentToken = []
           then (textResult ''Not authenticated. Please provide a token or create a new one.'', s)
           else (let (isValid, s1) = verifyProductionAuth e s
                 in if isValid
                    then (textResult (''Authenticated successfully. Token starts with: ''
                            @ take 8 currentToken @ ''...''), s1)
                    else (errorResult (''You have a token (starts with: '' @ take 8 currentToken
                            @ ''...) but it appears to be invalid or expired.'' @ nl @ nl
                            @ ''Please run the following command and then try again:'' @ nl @ loginHint),
                          s1))))"

text \<open>
  The handler. After the three branches the source has a last \<^verbatim>\<open>return\<close> and an outer
  \<^verbatim>\<open>catch\<close>; neither is reached: the third branch takes every call the first two leave,
  and nothing in the handler throws.
\<close>

definition authenticate :: "env \<Rightarrow> authenticate_args \<Rightarrow> state \<Rightarrow> envelope \<times> state" where
  "authenticate e args s =
     (if create_new args = Some True then authenticateCreateNew e args s
      else (case token_param args of
              None \<Rightarrow> authenticateStatus e s
            | Some tok \<Rightarrow> if tok = [] then authenticateStatus e s else authenticateProvided e tok s))"

section \<open>Starting a scan\<close>

text \<open>
  A JSON value in a template string. A number prints in decimal, as the host prints the
  integers it holds exactly.
\<close>

fun jsString :: "json \<Rightarrow> string" where
  "jsString JNull = ''null''"
| "jsString (JBool b) = (if b then ''true'' else ''false'')"
| "jsString (JNum n) = showInt n"
| "jsString (JStr v) = v"
| "jsString (JArr xs) = join '','' (map (\<lambda>x. if x = JNull then [] else jsString x) xs)"
| "jsString (JObj kvs) = ''[object Object]''"

text \<open>
  \<^verbatim>\<open>startScan\<close>: the \<^verbatim>\<open>scan\<close> command with its optional flags. For the JSON format the
  output is parsed, and when it has a truthy \<^verbatim>\<open>id\<close> that is echoed under \<^verbatim>\<open>extracted_id\<close>
  (only an object can have one); output that does not parse, or parses to \<^verbatim>\<open>null\<close>, is
  returned as it is, with a log line.
\<close>

definition scanArgs :: "string \<Rightarrow> scan_options \<Rightarrow> string list" where
  "scanArgs targetName options =
     [''scan'', targetName]
     @ flagIf ''-c'' (auth options)
     @ flagIf ''-C'' (auth_id options)
     @ (if no_auth options = Some True then [''--no-auth''] else [])
     @ flagIf ''-p'' (project options)
     @ flagIf ''-P'' (project_id options)"

definition extractId :: "env \<Rightarrow> string \<Rightarrow> state \<Rightarrow> string \<times> state" where
  "extractId e result s =
     (case json_parse e result of
        Inl parseError \<Rightarrow>
          (result, log (''Could not parse JSON result to extract scan ID: '' @ errorString parseError) s)
      | Inr resultObj \<Rightarrow>
          (case resultObj of
             JNull \<Rightarrow>
               (result,
                log (''Could not parse JSON result to extract scan ID: TypeError: Cannot read properties of null (reading ''
                     @ sq @ ''id'' @ sq @ '')'') s)
           | JObj kvs \<Rightarrow>
               (case map_of kvs ''id'' of
                  None \<Rightarrow> (result, s)
                | Some v \<Rightarrow>
                    (if jtruthy v
                     then (json_pretty e (JObj (setProp kvs ''extracted_id'' v)),
                           log (''Extracted scan ID: '' @ jsString v) s)
                     else (result, s)))
           | other \<Rightarrow> (result, s)))"

definition startScan ::
  "env \<Rightarrow> string \<Rightarrow> scan_options \<Rightarrow> OutputFormat \<Rightarrow> state \<Rightarrow> (error + string) \<times> state" where
  "startScan e targetName options format s =
     (let (r, s1) = executeCommand e (scanArgs targetName options) format False s
      in case r of
           Inl err \<Rightarrow> (Inl err, s1)
         | Inr result \<Rightarrow>
             (if format = FJson
              then (let (out, s2) = extractId e result s1 in (Inr out, s2))
              else (Inr result, s1)))"

text \<open>
  The callback that the start-scan tool leaves in the timer queue. It calls \<^verbatim>\<open>startScan\<close>;
  \<open>scanStarted\<close> is its \<^verbatim>\<open>then\<close> branch, which logs the scan id when the result has one
  and then the first 100 characters of the result; its \<^verbatim>\<open>catch\<close> branch logs the error.
  Neither branch returns anything to anyone.
\<close>

definition scanIdOf :: "json \<Rightarrow> json option" where
  "scanIdOf resultObj =
     (if otruthy (getProp resultObj ''extracted_id'') then getProp resultObj ''extracted_id''
      else if otruthy (getProp resultObj ''id'') then getProp resultObj ''id''
      else None)"

definition scanStarted :: "env \<Rightarrow> string \<Rightarrow> state \<Rightarrow> state" where
  "scanStarted e result s =
     (let s1 = (case json_parse e result of
                  Inl parseError \<Rightarrow>
                    log (''Could not parse scan result: '' @ errorString parseError) s
                | Inr resultObj \<Rightarrow>
                    (if resultObj = JNull
                     then log (''Could not parse scan result: TypeError: Cannot read properties of null (reading ''
                               @ sq @ ''id'' @ sq @ '')'') s
                     else (case scanIdOf resultObj of
                             None \<Rightarrow> s
                           | Some scanId \<Rightarrow> log (''Scan started with ID: '' @ jsString scanId) s)))
      in log (''Scan started successfully in background: '' @ take 100 result @ ''...'') s1)"

fun run_task :: "env \<Rightarrow> task \<Rightarrow> state \<Rightarrow> state" where
  "run_task e (StartScanTask targetName options format) s =
     (case startScan e targetName options format s of
        (Inr result, s1) \<Rightarrow> scanStarted e result s1
      | (Inl err, s1) \<Rightarrow> log (''Error in background scan execution: '' @ message err) s1)"

text \<open>One turn of the event loop: the oldest waiting callback runs.\<close>

definition run_next_timer :: "env \<Rightarrow> state \<Rightarrow> state" where
  "run_next_timer e s =
     (case timers s of
        [] \<Rightarrow> s
      | t # ts \<Rightarrow> run_task e t (s\<lparr>timers := ts\<rparr>))"

text \<open>\<^verbatim>\<open>setTimeout(callback, 0)\<close>: the callback joins the queue; nothing runs.\<close>

definition setTimeout :: "task \<Rightarrow> state \<Rightarrow> state" where
  "setTimeout t s = s\<lparr>timers := timers s @ [t]\<rparr>"

subsection \<open>The start-scan tool\<close>

record start_scan_args = scan_options +
  target_name :: string
  format_arg :: "OutputFormat option"

text \<open>\<^verbatim>\<open>format = 'json'\<close> in the destructuring of the arguments.\<close>

definition formatOr :: "OutputFormat \<Rightarrow> OutputFormat option \<Rightarrow> OutputFormat" where
  "formatOr d f = (case f of None \<Rightarrow> d | Some x \<Rightarrow> x)"

definition scanConfirmation :: "string \<Rightarrow> string option \<Rightarrow> string option \<Rightarrow> string" where
  "scanConfirmation targetName proj projId =
     ''Scan initiated for target '' @ sq @ targetName @ sq @ ''.'' @ nl @ nl
     @ ''The scan is being processed in the background and may take several minutes to complete.''
     @ nl @ nl
     @ ''To check the status of this scan, you can use the get-scan-status tool in either of these ways:''
     @ nl @ nl
     @ ''1. Using the target name:'' @ nl
     @ ''   {'' @ nl
     @ ''     '' @ dq @ ''target_name'' @ dq @ '': '' @ dq @ targetName @ dq @ '','' @ nl
     @ ''     '' @ dq @ ''project'' @ dq @ '': '' @ dq @ orElse proj [] @ dq
     @ (case projId of
          None \<Rightarrow> []
        | Some p \<Rightarrow> if p = [] then []
                    else '','' @ nl @ ''     '' @ dq @ ''project_id'' @ dq @ '': '' @ dq @ p @ dq)
     @ nl @ ''   }'' @ nl @ nl
     @ ''2. Or when the scan ID becomes available, you can use:'' @ nl
     @ ''   {'' @ nl
     @ ''     '' @ dq @ ''scan_id'' @ dq @ '': '' @ dq @ ''scan-id-here'' @ dq @ nl
     @ ''   }'' @ nl @ nl
     @ ''You can also list all your scans with the list-scans tool.''"

text \<open>
  The handler: the credential check, the project check, then the launch is handed to the
  timer queue and the confirmation is returned. (The \<^verbatim>\<open>catch\<close> blocks that follow in the
  source are never entered: nothing between \<^verbatim>\<open>try\<close> and \<^verbatim>\<open>return\<close> throws, and a failure
  of the launch is handled in the callback.)
\<close>

definition start_scan :: "env \<Rightarrow> start_scan_args \<Rightarrow> state \<Rightarrow> envelope \<times> state" where
  "start_scan e args s =
     (if falsy (getToken s) then (notAuthenticated, s)
      else if falsy (project args) \<and> falsy (project_id args)
      then (errorResult (''You must specify a project when starting a scan. Please include either the ''
              @ sq @ ''project'' @ sq @ '' or '' @ sq @ ''project_id'' @ sq @ '' parameter.''), s)
      else (let s1 = log (''Starting scan for target '' @ sq @ target_name args @ sq
                          @ '' in background...'') s;
                s2 = setTimeout
                       (StartScanTask (target_name args)
                          \<lparr>project = project args, project_id = project_id args, auth = auth args,
                           auth_id = auth_id args, no_auth = no_auth args\<rparr>
                          (formatOr FJson (format_arg args))) s1
            in (textResult (scanConfirmation (target_name args) (project args) (project_id args)), s2)))"

subsection \<open>The scan result tools\<close>

text \<open>
  \<^verbatim>\<open>error.message && (error.message.includes("not found") || error.message.includes("does not exist"))\<close>.
\<close>

definition saysNotFound :: "string \<Rightarrow> bool" where
  "saysNotFound m = (m \<noteq> [] \<and> (includes_str m ''not found'' \<or> includes_str m ''does not exist''))"

definition get_scan_checks ::
  "env \<Rightarrow> string \<Rightarrow> checks_options \<Rightarrow> OutputFormat option \<Rightarrow> state \<Rightarrow> envelope \<times> state" where
  "get_scan_checks e scanId options format s =
     (if falsy (getToken s) then (notAuthenticated, s)
      else if severity options = []
      then (errorResult ''Severity parameter is required and must be an array of severity values.'', s)
      else if status options = []
      then (errorResult ''Status parameter is required and must be an array of status codes (0, 1, 2, 3).'', s)
      else (case getScanChecks e scanId options (formatOr FJson format) s of
              (Inr result, s1) \<Rightarrow> (textResult result, s1)
            | (Inl err, s1) \<Rightarrow>
                (if saysNotFound (message err)
                 then errorResult (''Scan not found: The scan with ID '' @ sq @ scanId @ sq
                        @ '' was not found or you don'' @ sq @ ''t have permission to access it.''
                        @ nl @ nl
                        @ ''Please check that the scan ID is correct and that you have access to the project containing this scan.'')
                 else errorResult (''Failed to get scan vulnerabilities: '' @ message err),
                 log (''Error getting scan checks: '' @ message err) s1)))"

definition get_scan_paths ::
  "env \<Rightarrow> string \<Rightarrow> paths_options \<Rightarrow> OutputFormat option \<Rightarrow> state \<Rightarrow> envelope \<times> state" where
  "get_scan_paths e scan_id options format s =
     (if falsy (getToken s) then (notAuthenticated, s)
      else if scan_id = []
      then (errorResult (''Scan ID is required. Please provide a '' @ sq @ ''scan_id'' @ sq
              @ '' parameter with the UUID of the scan.''), s)
      else (case getScanPaths e scan_id options (formatOr FJson format) s of
              (Inr out, s1) \<Rightarrow> (textResult out, s1)
            | (Inl err, s1) \<Rightarrow> (errorResult (''Error getting scan paths: '' @ message err), s1)))"

subsection \<open>The first phase of API discovery\<close>

text \<open>
  The two-phase variant of \<^verbatim>\<open>discover-api\<close> answers its first call with a prompt for the
  project directory, whatever the state: it checks nothing and does nothing else.
\<close>

definition discover_api_prompt :: "state \<Rightarrow> envelope \<times> state" where
  "discover_api_prompt s =
     (\<lparr>content = [''Before I start the API discovery process, I need to confirm your project directory.''
                   @ nl @ nl
                   @ ''Please provide the absolute path to your project directory. '' @ nl
                   @ ''For example: '' @ dq @ ''/Users/username/projects/my-api-project'' @ dq @ nl @ nl
                   @ ''This will help me correctly resolve relative paths in your codebase.''],
       isError = Some False,
       promptResponse = Some ''discover-api-with-path''\<rparr>, s)"

subsection \<open>All registered tools\<close>

text \<open>
  The other sixteen handlers of the source (the second phase and the one-phase variant of
  API discovery among them) open alike: the arguments are taken apart, which has no
  effect, and then the credential is checked with the same test and the same answer. What
  each does after the check is not needed here and is a parameter.
\<close>

datatype guarded_tool =
    ListTargets | GetTargetDetails | CreateTarget | DeleteTarget
  | ListScans | GetScanStatus
  | DiscoverApiWithPath | DiscoverApi
  | CreateNucleiTemplate | UploadNucleiTemplate | ListNucleiTemplates
  | ListProjects | GetProjectDetails
  | RecordTraffic | ListTraffic | DownloadTraffic

type_synonym continuation = "guarded_tool \<Rightarrow> json \<Rightarrow> state \<Rightarrow> envelope \<times> state"

definition guarded :: "(json \<Rightarrow> state \<Rightarrow> envelope \<times> state) \<Rightarrow> json \<Rightarrow> state \<Rightarrow> envelope \<times> state" where
  "guarded body args s = (if falsy (getToken s) then (notAuthenticated, s) else body args s)"

datatype call =
    AuthenticateCall authenticate_args
  | StartScanCall start_scan_args
  | GetScanChecksCall string checks_options "OutputFormat option"
  | GetScanPathsCall string paths_options "OutputFormat option"
  | DiscoverApiPromptCall
  | GuardedCall guarded_tool json

fun handle :: "env \<Rightarrow> continuation \<Rightarrow> call \<Rightarrow> state \<Rightarrow> envelope \<times> state" where
  "handle e rest (AuthenticateCall args) s = authenticate e args s"
| "handle e rest (StartScanCall args) s = start_scan e args s"
| "handle e rest (GetScanChecksCall scanId options format) s = get_scan_checks e scanId options format s"
| "handle e rest (GetScanPathsCall scanId options format) s = get_scan_paths e scanId options format s"
| "handle e rest DiscoverApiPromptCall s = discover_api_prompt s"
| "handle e rest (GuardedCall t args) s = guarded (rest t) args s"

text \<open>The tools that check the credential first: all but authenticate and the prompt.\<close>

fun checksCredential :: "call \<Rightarrow> bool" where
  "checksCredential (AuthenticateCall args) = False"
| "checksCredential DiscoverApiPromptCall = False"
| "checksCredential c = True"

section \<open>Observing a run\<close>

text \<open>
  What happened between two states of a run: the events of the later trace that come
  after those of the earlier; of these, the shell commands and the HTTP requests.
\<close>

definition issued :: "state \<Rightarrow> state \<Rightarrow> event list" where
  "issued s s' = drop (length (trace s)) (trace s')"

fun commandsOf :: "event list \<Rightarrow> string list" where
  "commandsOf [] = []"
| "commandsOf (Exec c # evs) = c # commandsOf evs"
| "commandsOf (ev # evs) = commandsOf evs"

fun requestsOf :: "event list \<Rightarrow> request list" where
  "requestsOf [] = []"
| "requestsOf (Http r # evs) = r # requestsOf evs"
| "requestsOf (ev # evs) = requestsOf evs"

text \<open>A state after some more lines were written to the log, and nothing else happened.\<close>

definition logged :: "state \<Rightarrow> string list \<Rightarrow> state" where
  "logged s ms = s\<lparr>trace := trace s @ map Log ms\<rparr>"

text \<open>
  Sample worlds for concrete runs: one where every command prints nothing and every request
  is answered with an empty object, and a process that holds a token and has nothing
  on disk.
\<close>

definition quiet_env :: env where
  "quiet_env =
     \<lparr>exec_reply = (\<lambda>tr c. Inr ([], [])),
      http_reply = (\<lambda>tr r. Inr (JObj [])),
      json_parse = (\<lambda>t. Inl (Error ''SyntaxError'' ''Unexpected end of JSON input'')),
      json_pretty = (\<lambda>v. ''{}''),
      tmpdir = ''/tmp'',
      cwd = ''/srv/app'',
      fs_exists = (\<lambda>p. True),
      fs_writable = (\<lambda>p. True),
      formatChecksAsText = (\<lambda>v. Inr []),
      formatChecksAsTable = (\<lambda>v. Inr []),
      formatPathsAsText = (\<lambda>v. Inr []),
      formatPathsAsTable = (\<lambda>v. Inr [])\<rparr>"

definition start_state :: "string option \<Rightarrow> state" where
  "start_state tok =
     \<lparr>token = tok, config_dir = None, token_file = None, io_error = (\<lambda>op. None),
      trace = [], timers = []\<rparr>"

text \<open>A world whose API answers every request with status 404.\<close>

definition not_found_env :: env where
  "not_found_env =
     quiet_env\<lparr>http_reply :=
       (\<lambda>tr r. Inl (AxiosError (Some 404) (Some ''Not found.'') ''Request failed with status code 404''))\<rparr>"

text \<open>A world whose API answers every request with an empty page of results.\<close>

definition empty_page_env :: env where
  "empty_page_env =
     quiet_env\<lparr>http_reply := (\<lambda>tr r. Inr (JObj [(''count'', JNum 0), (''results'', JArr [])]))\<rparr>"

text \<open>A continuation that answers with an empty text, for concrete runs.\<close>

definition idle_rest :: continuation where
  "idle_rest t args s = (textResult [], s)"

text \<open>
  A world where the \<^verbatim>\<open>token create\<close> command prints a fresh token and the API rejects every
  request with status 401, and one where the shell rejects every command.
\<close>

definition rejecting_env :: env where
  "rejecting_env =
     quiet_env\<lparr>exec_reply := (\<lambda>tr c. Inr (''Token created:'' @ nl @ ''nv_tk_0123456789abcdef'' @ nl, [])),
       http_reply := (\<lambda>tr r. Inl (AxiosError (Some 401) (Some ''Invalid token.'')
                                  ''Request failed with status code 401''))\<rparr>"

definition failing_env :: env where
  "failing_env = quiet_env\<lparr>exec_reply := (\<lambda>tr c. Inl (newError ''Command failed: nightvision''))\<rparr>"

text \<open>
  A world where the scan command prints \<^verbatim>\<open>{"id": "scan-42"}\<close>; \<^verbatim>\<open>JSON.parse\<close> and
  \<^verbatim>\<open>JSON.stringify(_, null, 2)\<close> are given on the two texts and the object that occur.
\<close>

definition scan_output :: string where
  "scan_output = ''{'' @ dq @ ''id'' @ dq @ '': '' @ dq @ ''scan-42'' @ dq @ ''}''"

definition scan_output_pretty :: string where
  "scan_output_pretty =
     ''{'' @ nl @ ''  '' @ dq @ ''id'' @ dq @ '': '' @ dq @ ''scan-42'' @ dq @ '','' @ nl
     @ ''  '' @ dq @ ''extracted_id'' @ dq @ '': '' @ dq @ ''scan-42'' @ dq @ nl @ ''}''"

definition launching_env :: env where
  "launching_env =
     quiet_env\<lparr>exec_reply := (\<lambda>tr c. Inr (scan_output, [])),
       json_parse := (\<lambda>t. if t = scan_output then Inr (JObj [(''id'', JStr ''scan-42'')])
                         else if t = scan_output_pretty
                         then Inr (JObj [(''id'', JStr ''scan-42''), (''extracted_id'', JStr ''scan-42'')])
                         else Inl (Error ''SyntaxError'' ''Unexpected end of JSON input'')),
       json_pretty := (\<lambda>v. if v = JObj [(''id'', JStr ''scan-42''), (''extracted_id'', JStr ''scan-42'')]
                          then scan_output_pretty else ''{}'')\<rparr>"

chapter \<open>Properties\<close>

section \<open>The table encoding\<close>





lemma set_join_subset: "set (join sep xs) \<subseteq> set sep \<union> \<Union> (set ` set xs)"
  by (induction sep xs rule: join.induct) auto

lemma set_padEnd: "set (padEnd s n) \<subseteq> insert CHR '' '' (set s)"
  by (auto simp: padEnd_def)





















text \<open>
  Claim C10. With an empty header list or an empty row list, \<^verbatim>\<open>formatAsTable\<close> returns
  exactly the one-line string \<^verbatim>\<open>No data to display\<close>: no header line and no separator
  line, so the output does not have the \<open>N + 2\<close> lines of a table.
\<close>

theorem formatAsTable_no_data:
  assumes "headers = [] \<or> rows = []"
  shows "formatAsTable headers rows = ''No data to display''
       \<and> split_lines (formatAsTable headers rows) = [''No data to display'']
       \<and> length (split_lines (formatAsTable headers rows)) \<noteq> length rows + 2"
proof -
  have f: "formatAsTable headers rows = ''No data to display''"
    using assms by (auto simp: formatAsTable_def)
  have s: "split_lines ''No data to display'' = [''No data to display'']"
    by (simp add: split_lines_def)
  show ?thesis by (simp add: f s)
qed

theorem formatAsTable_no_data_witness:
  "formatAsTable [''#'', ''Kind''] [] = ''No data to display''
   \<and> formatAsTable [] [[''1'', ''xss'']] = ''No data to display''
   \<and> length (split_lines (formatAsTable [''#'', ''Kind''] [])) \<noteq> 0 + 2"
proof -
  have a: "[''#'', ''Kind''] = [] \<or> ([]::string list list) = []" by simp
  have b: "([]::string list) = [] \<or> [[''1'', ''xss'']] = []" by simp
  show ?thesis
    using formatAsTable_no_data[OF a] formatAsTable_no_data[OF b] by (simp add: split_lines_def)
qed

section \<open>The executor\<close>

lemma includes_str_single: "includes_str s [c] = (c \<in> set s)"
  by (induction s) (auto simp: startsWith_def)

lemma commandsOf_append [simp]: "commandsOf (xs @ ys) = commandsOf xs @ commandsOf ys"
  by (induction xs rule: commandsOf.induct) auto

lemma requestsOf_append [simp]: "requestsOf (xs @ ys) = requestsOf xs @ requestsOf ys"
  by (induction xs rule: requestsOf.induct) auto

lemma trace_log [simp]: "trace (log m s) = trace s @ [Log m]"
  by (simp add: log_def)

lemma token_log [simp]: "token (log m s) = token s"
  by (simp add: log_def)

lemma executeCommand_trace:
  "\<exists>logs. trace (snd (executeCommand e args format skipToken s))
     = trace s @ [Log (''Executing: '' @ commandLine (token s) args format skipToken),
                  Exec (commandLine (token s) args format skipToken)] @ map Log logs"
proof -
  let ?c = "commandLine (token s) args format skipToken"
  let ?s1 = "log (''Executing: '' @ ?c) s"
  show ?thesis
  proof (cases "exec_reply e (trace ?s1) ?c")
    case (Inl err)
    then show ?thesis
      by (intro exI[of _ "[''Failed to execute NightVision command: '' @ message err]"])
         (simp add: executeCommand_def execAsync_def Let_def)
  next
    case (Inr out)
    obtain stdout stderr where out: "out = (stdout, stderr)" by (cases out)
    show ?thesis
    proof (cases "stderr \<noteq> [] \<and> trim stderr \<noteq> []")
      case True
      show ?thesis
      proof (cases "take 2 args = [''swagger'', ''extract'']")
        case sw: True
        with True Inr out show ?thesis
          by (intro exI[of _ "[''NightVision CLI warning/error: '' @ stderr, ''Including stderr in command output for API discovery'']"])
             (simp add: executeCommand_def execAsync_def Let_def)
      next
        case sw: False
        with True Inr out show ?thesis
          by (intro exI[of _ "[''NightVision CLI warning/error: '' @ stderr]"])
             (simp add: executeCommand_def execAsync_def Let_def)
      qed
    next
      case False
      with Inr out show ?thesis
        by (intro exI[of _ "[]"]) (auto simp add: executeCommand_def execAsync_def Let_def)
    qed
  qed
qed

lemma commandsOf_map_Log [simp]: "commandsOf (map Log ms) = []"
  by (induction ms) auto

lemma requestsOf_map_Log [simp]: "requestsOf (map Log ms) = []"
  by (induction ms) auto

lemma executeCommand_commands:
  "commandsOf (issued s (snd (executeCommand e args format skipToken s)))
     = [commandLine (token s) args format skipToken]"
proof -
  obtain logs where "trace (snd (executeCommand e args format skipToken s))
     = trace s @ [Log (''Executing: '' @ commandLine (token s) args format skipToken),
                  Exec (commandLine (token s) args format skipToken)] @ map Log logs"
    using executeCommand_trace by blast
  then show ?thesis by (simp add: issued_def)
qed

text \<open>
  Claim C7, as the code has it. \<^verbatim>\<open>executeCommand\<close> runs exactly one shell command: the
  words \<^verbatim>\<open>nightvision\<close>, the caller's arguments and the appended flags, joined by single
  spaces, where each word that contains a space character is wrapped in double quotes and
  each word without a space character is left as it is.
\<close>

theorem executeCommand_quotes_spaces:
  "commandsOf (issued s (snd (executeCommand e args format skipToken s)))
           = [join '' '' (map quoteArg (argv (token s) args format skipToken))]
       \<and> set args \<subseteq> set (argv (token s) args format skipToken)
       \<and> (\<forall>a \<in> set (argv (token s) args format skipToken).
            (CHR '' '' \<in> set a \<longrightarrow> quoteArg a = [CHR 0x22] @ a @ [CHR 0x22])
          \<and> (CHR '' '' \<notin> set a \<longrightarrow> quoteArg a = a))"
  by (auto simp: argv_def executeCommand_commands commandLine_def commandArgs_def quoteArg_def
        includes_str_single)

theorem executeCommand_quotes_spaces_witness:
  "commandsOf (issued (start_state (Some ''tk1''))
      (snd (executeCommand quiet_env [''target'', ''create'', ''my target'', ''http://x''] FJson False
              (start_state (Some ''tk1'')))))
     = [''nightvision target create '' @ [CHR 0x22] @ ''my target'' @ [CHR 0x22]
          @ '' http://x -F json --api-url https://api.nightvision.net/api/v1/ --token tk1'']
   \<and> quoteArg ''my target'' = [CHR 0x22] @ ''my target'' @ [CHR 0x22]
   \<and> quoteArg ''http://x'' = ''http://x''"
proof -
  let ?s = "start_state (Some ''tk1'')"
  let ?args = "[''target'', ''create'', ''my target'', ''http://x'']"
  have tok: "token ?s = Some ''tk1''" by (simp add: start_state_def)
  have av: "argv (Some ''tk1'') ?args FJson False
      = [''nightvision'', ''target'', ''create'', ''my target'', ''http://x'', ''-F'', ''json'',
         ''--api-url'', ''https://api.nightvision.net/api/v1/'', ''--token'', ''tk1'']"
    by (simp add: argv_def commandArgs_def flagIf_def CURRENT_API_URL_def)
  have q1: "quoteArg ''my target'' = [CHR 0x22] @ ''my target'' @ [CHR 0x22]" by (simp add: quoteArg_def startsWith_def)
  have q2: "quoteArg ''http://x'' = ''http://x''" by (simp add: quoteArg_def startsWith_def)
  have cl: "join '' '' (map quoteArg (argv (Some ''tk1'') ?args FJson False))
     = ''nightvision target create '' @ [CHR 0x22] @ ''my target'' @ [CHR 0x22]
          @ '' http://x -F json --api-url https://api.nightvision.net/api/v1/ --token tk1''"
    unfolding av by (simp add: quoteArg_def startsWith_def)
  show ?thesis
    using executeCommand_quotes_spaces[of ?s quiet_env ?args FJson False] q1 q2
    by (simp only: tok cl simp_thms)
qed

text \<open>
  Claim C7 as stated speaks of white space. The test in the code is for the space
  character only: an argument with a tab in it, which is white space, reaches the shell
  unquoted.
\<close>

theorem executeCommand_tab_counterexample:
  "isWhiteSpace (CHR 0x09)
   \<and> CHR 0x09 \<in> set [CHR ''a'', CHR 0x09, CHR ''b'']
   \<and> commandsOf (issued (start_state None)
        (snd (executeCommand quiet_env [[CHR ''a'', CHR 0x09, CHR ''b'']] FText False (start_state None))))
      = [''nightvision a'' @ [CHR 0x09] @ ''b -F text --api-url https://api.nightvision.net/api/v1/'']"
proof -
  have "commandLine None [[CHR ''a'', CHR 0x09, CHR ''b'']] FText False
      = ''nightvision a'' @ [CHR 0x09] @ ''b -F text --api-url https://api.nightvision.net/api/v1/''"
    by (simp add: commandLine_def argv_def commandArgs_def flagIf_def CURRENT_API_URL_def
          quoteArg_def startsWith_def)
  moreover have "token (start_state None) = None" by (simp add: start_state_def)
  ultimately show ?thesis
    by (simp add: executeCommand_commands isWhiteSpace_def)
qed

section \<open>Requests of the scan operations\<close>

lemma apiRequest_trace:
  "trace (snd (apiRequest e endpoint method ps data isFormData s))
     = trace s @ [Http \<lparr>req_method = method, req_url = CURRENT_API_URL @ endpoint,
                        req_headers = (if isFormData then [(''Authorization'', authorization (token s))]
                                       else getApiHeaders s),
                        req_params = ps, req_data = data\<rparr>]"
  by (simp add: apiRequest_def Let_def split: sum.splits)

lemma apiRequest_token [simp]:
  "token (snd (apiRequest e endpoint method ps data isFormData s)) = token s"
  by (simp add: apiRequest_def Let_def split: sum.splits)

lemma getScanChecks_requests:
  "requestsOf (issued s (snd (getScanChecks e scanId options format s)))
     = [\<lparr>req_method = GET, req_url = CURRENT_API_URL @ ''scans/'' @ scanId @ ''/checks/'',
         req_headers = getApiHeaders s, req_params = checksParams options, req_data = NoBody\<rparr>]"
proof -
  let ?s1 = "log (''Getting scan checks for '' @ scanId @ '' via API endpoint...'') s"
  let ?a = "apiRequest e (''scans/'' @ scanId @ ''/checks/'') GET (checksParams options) NoBody False ?s1"
  obtain r s2 where a: "?a = (r, s2)" by (cases ?a)
  have t: "trace s2 = trace ?s1 @ [Http \<lparr>req_method = GET,
              req_url = CURRENT_API_URL @ ''scans/'' @ scanId @ ''/checks/'',
              req_headers = getApiHeaders ?s1, req_params = checksParams options, req_data = NoBody\<rparr>]"
    using apiRequest_trace[of e "''scans/'' @ scanId @ ''/checks/''" GET "checksParams options" NoBody False ?s1] a
    by simp
  have h: "getApiHeaders ?s1 = getApiHeaders s" by (simp add: getApiHeaders_def)
  show ?thesis
    using a t h
    by (auto simp: getScanChecks_def Let_def issued_def split: sum.splits)
qed

lemma getScanPaths_requests:
  "requestsOf (issued s (snd (getScanPaths e scanId options format s)))
     = [\<lparr>req_method = GET, req_url = CURRENT_API_URL @ ''scans/'' @ scanId @ ''/paths/'',
         req_headers = getApiHeaders s, req_params = pathsParams options, req_data = NoBody\<rparr>]"
proof -
  let ?s1 = "log (''Getting scan paths for '' @ scanId @ '' via API endpoint...'') s"
  let ?a = "apiRequest e (''scans/'' @ scanId @ ''/paths/'') GET (pathsParams options) NoBody False ?s1"
  obtain r s2 where a: "?a = (r, s2)" by (cases ?a)
  have t: "trace s2 = trace ?s1 @ [Http \<lparr>req_method = GET,
              req_url = CURRENT_API_URL @ ''scans/'' @ scanId @ ''/paths/'',
              req_headers = getApiHeaders ?s1, req_params = pathsParams options, req_data = NoBody\<rparr>]"
    using apiRequest_trace[of e "''scans/'' @ scanId @ ''/paths/''" GET "pathsParams options" NoBody False ?s1] a
    by simp
  have h: "getApiHeaders ?s1 = getApiHeaders s" by (simp add: getApiHeaders_def)
  show ?thesis
    using a t h
    by (auto simp: getScanPaths_def Let_def issued_def split: sum.splits)
qed


lemma map_of_numParamIf_other: "k' \<noteq> k \<Longrightarrow> map_of (numParamIf k x) k' = None"
  by (auto simp: numParamIf_def split: option.splits)

lemma map_of_strParamIf_other: "k' \<noteq> k \<Longrightarrow> map_of (strParamIf k x) k' = None"
  by (auto simp: strParamIf_def split: option.splits)

lemma checksParams_severity:
  "map_of (checksParams options) ''severity'' = Some (PStrs (map severityName (severity options)))"
  by (simp add: checksParams_def map_add_def map_of_numParamIf_other map_of_strParamIf_other)

lemma checksParams_status:
  "map_of (checksParams options) ''status'' = Some (PNums (status options))"
  by (simp add: checksParams_def map_add_def map_of_numParamIf_other map_of_strParamIf_other)

lemma checksParams_page_size:
  "map_of (checksParams options) ''page_size'' = Some (PNum (pageSizeOrDefault (page_size options)))"
  by (simp add: checksParams_def map_add_def map_of_numParamIf_other map_of_strParamIf_other)

lemma checksParams_entries:
  "queryEntries (checksParams options)
     = queryEntries (numParamIf ''page'' (page options))
       @ [(''page_size'', QNum (pageSizeOrDefault (page_size options)))]
       @ queryEntries (strParamIf ''name'' (name options))
       @ queryEntries (strParamIf ''check_kind'' (check_kind options))
       @ map (\<lambda>v. (''severity[]'', QStr (severityName v))) (severity options)
       @ map (\<lambda>n. (''status[]'', QNum n)) (status options)"
  by (simp add: checksParams_def queryEntries_def)

lemma queryEntries_numParamIf_keys: "fst ` set (queryEntries (numParamIf k x)) \<subseteq> {k}"
  by (auto simp: numParamIf_def queryEntries_def split: option.splits if_splits)

lemma queryEntries_strParamIf_keys: "fst ` set (queryEntries (strParamIf k x)) \<subseteq> {k}"
  by (auto simp: strParamIf_def queryEntries_def split: option.splits if_splits)

lemma checksParams_entry_keys:
  "fst ` set (queryEntries (checksParams options))
     \<subseteq> {''page'', ''page_size'', ''name'', ''check_kind'', ''severity[]'', ''status[]''}"
proof -
  have a: "fst ` set (queryEntries (numParamIf ''page'' (page options))) \<subseteq> {''page''}"
    by (rule queryEntries_numParamIf_keys)
  have b: "fst ` set (queryEntries (strParamIf ''name'' (name options))) \<subseteq> {''name''}"
    by (rule queryEntries_strParamIf_keys)
  have c: "fst ` set (queryEntries (strParamIf ''check_kind'' (check_kind options))) \<subseteq> {''check_kind''}"
    by (rule queryEntries_strParamIf_keys)
  have d: "fst ` set (map (\<lambda>v. (''severity[]'', QStr (severityName v))) (severity options)) \<subseteq> {''severity[]''}"
    by auto
  have e: "fst ` set (map (\<lambda>n. (''status[]'', QNum n)) (status options)) \<subseteq> {''status[]''}"
    by auto
  show ?thesis
    unfolding checksParams_entries set_append image_Un
    using a b c d e by (simp add: subset_iff)
qed

lemma checksParams_array_entries:
  "filter (\<lambda>kv. fst kv = ''page_size'' \<or> fst kv = ''severity[]'' \<or> fst kv = ''status[]'')
       (queryEntries (checksParams options))
     = (''page_size'', QNum (pageSizeOrDefault (page_size options)))
       # map (\<lambda>v. (''severity[]'', QStr (severityName v))) (severity options)
       @ map (\<lambda>n. (''status[]'', QNum n)) (status options)"
  by (simp add: checksParams_def numParamIf_def strParamIf_def queryEntries_def filter_map comp_def
        split: option.splits)

lemma pathsParams_no_page_size:
  "page_size options = None \<Longrightarrow> ''page_size'' \<notin> fst ` set (pathsParams options)"
  by (auto simp: pathsParams_def numParamIf_def strParamIf_def split: option.splits if_splits)

lemma pathsParams_no_page_size_entry:
  "page_size options = None \<Longrightarrow> ''page_size'' \<notin> fst ` set (queryEntries (pathsParams options))"
  by (auto simp: pathsParams_def numParamIf_def strParamIf_def queryEntries_def
        split: option.splits if_splits)

text \<open>
  Claim C8 on the code. A call of \<^verbatim>\<open>getScanChecks\<close> with severity \<^verbatim>\<open>["critical"]\<close> and
  status \<^verbatim>\<open>[0]\<close> sends one request. Its \<^verbatim>\<open>params\<close> object holds the two arrays under the
  keys \<^verbatim>\<open>severity\<close> and \<^verbatim>\<open>status\<close>, and \<^verbatim>\<open>page_size\<close>, which is 100 when the caller gave
  none. The HTTP client sends the arrays under the keys \<^verbatim>\<open>severity[]\<close> and \<^verbatim>\<open>status[]\<close>:
  the query has the entries \<^verbatim>\<open>severity[]=critical\<close> and \<^verbatim>\<open>status[]=0\<close> and no entry at all
  under the key \<^verbatim>\<open>severity\<close> or \<^verbatim>\<open>status\<close>. The repeated entries \<^verbatim>\<open>severity=critical\<close> and
  \<^verbatim>\<open>status=0\<close>, which the comments in \<^verbatim>\<open>getScanChecks\<close> announce, are not what goes out.
  A call of \<^verbatim>\<open>getScanPaths\<close> without a page size sends one request with no \<^verbatim>\<open>page_size\<close>
  parameter.
\<close>

theorem scan_checks_arrays_sent_bracketed:
  assumes "severity copts = [critical]" and "status copts = [0]" and "page_size popts = None"
  shows "(\<exists>req. requestsOf (issued s (snd (getScanChecks e scanId copts format s))) = [req]
            \<and> map_of (req_params req) ''severity'' = Some (PStrs [''critical''])
            \<and> map_of (req_params req) ''status'' = Some (PNums [0])
            \<and> map_of (req_params req) ''page_size''
                 = Some (PNum (case page_size copts of None \<Rightarrow> 100 | Some n \<Rightarrow> if n = 0 then 100 else n))
            \<and> ''severity'' \<notin> fst ` set (queryEntries (req_params req))
            \<and> ''status'' \<notin> fst ` set (queryEntries (req_params req))
            \<and> filter (\<lambda>kv. fst kv = ''page_size'' \<or> fst kv = ''severity[]'' \<or> fst kv = ''status[]'')
                   (queryEntries (req_params req))
                 = [(''page_size'',
                     QNum (case page_size copts of None \<Rightarrow> 100 | Some n \<Rightarrow> if n = 0 then 100 else n)),
                    (''severity[]'', QStr ''critical''), (''status[]'', QNum 0)])
       \<and> (\<exists>req. requestsOf (issued s' (snd (getScanPaths e' scanId' popts format' s'))) = [req]
            \<and> ''page_size'' \<notin> fst ` set (req_params req)
            \<and> ''page_size'' \<notin> fst ` set (queryEntries (req_params req)))"
proof -
  let ?n = "case page_size copts of None \<Rightarrow> 100 | Some n \<Rightarrow> if n = 0 then 100 else n"
  have ps: "pageSizeOrDefault (page_size copts) = ?n"
    by (simp add: pageSizeOrDefault_def)
  have c: "filter (\<lambda>kv. fst kv = ''page_size'' \<or> fst kv = ''severity[]'' \<or> fst kv = ''status[]'')
               (queryEntries (checksParams copts))
             = [(''page_size'', QNum ?n), (''severity[]'', QStr ''critical''), (''status[]'', QNum 0)]"
    by (simp only: checksParams_array_entries assms ps) simp
  have k1: "''severity'' \<notin> fst ` set (queryEntries (checksParams copts))"
    using checksParams_entry_keys[of copts] by auto
  have k2: "''status'' \<notin> fst ` set (queryEntries (checksParams copts))"
    using checksParams_entry_keys[of copts] by auto
  have checks: "\<exists>req. requestsOf (issued s (snd (getScanChecks e scanId copts format s))) = [req]
            \<and> map_of (req_params req) ''severity'' = Some (PStrs [''critical''])
            \<and> map_of (req_params req) ''status'' = Some (PNums [0])
            \<and> map_of (req_params req) ''page_size'' = Some (PNum ?n)
            \<and> ''severity'' \<notin> fst ` set (queryEntries (req_params req))
            \<and> ''status'' \<notin> fst ` set (queryEntries (req_params req))
            \<and> filter (\<lambda>kv. fst kv = ''page_size'' \<or> fst kv = ''severity[]'' \<or> fst kv = ''status[]'')
                   (queryEntries (req_params req))
                 = [(''page_size'', QNum ?n), (''severity[]'', QStr ''critical''), (''status[]'', QNum 0)]"
    using c ps k1 k2 assms(1,2)
    by (simp add: getScanChecks_requests checksParams_severity checksParams_status
          checksParams_page_size)
  have paths: "\<exists>req. requestsOf (issued s' (snd (getScanPaths e' scanId' popts format' s'))) = [req]
            \<and> ''page_size'' \<notin> fst ` set (req_params req)
            \<and> ''page_size'' \<notin> fst ` set (queryEntries (req_params req))"
    using pathsParams_no_page_size[OF assms(3)] pathsParams_no_page_size_entry[OF assms(3)]
    by (simp add: getScanPaths_requests)
  show ?thesis using checks paths by (rule conjI)
qed

theorem scan_checks_arrays_sent_bracketed_witness:
  "severity \<lparr>page = None, page_size = None, name = None, check_kind = None,
             severity = [critical], status = [0]\<rparr> = [critical]
   \<and> page_size \<lparr>page = Some 2, page_size = None, filter_opt = Some ''/api/''\<rparr> = None
   \<and> requestsOf (issued (start_state (Some ''tk1''))
         (snd (getScanChecks quiet_env ''scan-1''
                 \<lparr>page = None, page_size = None, name = None, check_kind = None,
                  severity = [critical], status = [0]\<rparr> FJson (start_state (Some ''tk1'')))))
       = [\<lparr>req_method = GET,
           req_url = ''https://api.nightvision.net/api/v1/scans/scan-1/checks/'',
           req_headers = [(''Authorization'', ''Token tk1''), (''Content-Type'', ''application/json'')],
           req_params = [(''page_size'', PNum 100), (''severity'', PStrs [''critical'']),
                         (''status'', PNums [0])],
           req_data = NoBody\<rparr>]
   \<and> queryEntries [(''page_size'', PNum 100), (''severity'', PStrs [''critical'']), (''status'', PNums [0])]
       = [(''page_size'', QNum 100), (''severity[]'', QStr ''critical''), (''status[]'', QNum 0)]
   \<and> requestsOf (issued (start_state (Some ''tk1''))
         (snd (getScanPaths quiet_env ''scan-1''
                 \<lparr>page = Some 2, page_size = None, filter_opt = Some ''/api/''\<rparr> FJson
                 (start_state (Some ''tk1'')))))
       = [\<lparr>req_method = GET,
           req_url = ''https://api.nightvision.net/api/v1/scans/scan-1/paths/'',
           req_headers = [(''Authorization'', ''Token tk1''), (''Content-Type'', ''application/json'')],
           req_params = [(''page'', PNum 2), (''filter'', PStr ''/api/'')],
           req_data = NoBody\<rparr>]
   \<and> queryEntries [(''page'', PNum 2), (''filter'', PStr ''/api/'')]
       = [(''page'', QNum 2), (''filter'', QStr ''/api/'')]"
proof -
  let ?c = "\<lparr>page = None, page_size = None, name = None, check_kind = None,
             severity = [critical], status = [0]\<rparr>"
  let ?p = "\<lparr>page = Some 2, page_size = None, filter_opt = Some ''/api/''\<rparr>"
  let ?s = "start_state (Some ''tk1'')"
  have h1: "severity ?c = [critical]" by simp
  have h2: "status ?c = [0]" by simp
  have h3: "page_size ?p = None" by simp
  have cp: "checksParams ?c = [(''page_size'', PNum 100), (''severity'', PStrs [''critical'']),
                         (''status'', PNums [0])]"
    by (simp add: checksParams_def numParamIf_def strParamIf_def pageSizeOrDefault_def)
  have pp: "pathsParams ?p = [(''page'', PNum 2), (''filter'', PStr ''/api/'')]"
    by (simp add: pathsParams_def numParamIf_def strParamIf_def)
  have hd: "getApiHeaders ?s = [(''Authorization'', ''Token tk1''), (''Content-Type'', ''application/json'')]"
    by (simp add: getApiHeaders_def authorization_def start_state_def)
  have qe: "queryEntries [(''page_size'', PNum 100), (''severity'', PStrs [''critical'']), (''status'', PNums [0])]
       = [(''page_size'', QNum 100), (''severity[]'', QStr ''critical''), (''status[]'', QNum 0)]"
    by (simp add: queryEntries_def)
  have qp: "queryEntries [(''page'', PNum 2), (''filter'', PStr ''/api/'')]
       = [(''page'', QNum 2), (''filter'', QStr ''/api/'')]"
    by (simp add: queryEntries_def)
  from scan_checks_arrays_sent_bracketed[OF h1 h2 h3, of ?s quiet_env "''scan-1''" FJson ?s quiet_env "''scan-1''" FJson]
  obtain req req' where
    r: "requestsOf (issued ?s (snd (getScanChecks quiet_env ''scan-1'' ?c FJson ?s))) = [req]"
    and r': "requestsOf (issued ?s (snd (getScanPaths quiet_env ''scan-1'' ?p FJson ?s))) = [req']"
    by blast
  have e: "req = \<lparr>req_method = GET,
           req_url = ''https://api.nightvision.net/api/v1/scans/scan-1/checks/'',
           req_headers = [(''Authorization'', ''Token tk1''), (''Content-Type'', ''application/json'')],
           req_params = [(''page_size'', PNum 100), (''severity'', PStrs [''critical'']),
                         (''status'', PNums [0])],
           req_data = NoBody\<rparr>"
    using r by (simp add: getScanChecks_requests cp hd CURRENT_API_URL_def)
  have e': "req' = \<lparr>req_method = GET,
           req_url = ''https://api.nightvision.net/api/v1/scans/scan-1/paths/'',
           req_headers = [(''Authorization'', ''Token tk1''), (''Content-Type'', ''application/json'')],
           req_params = [(''page'', PNum 2), (''filter'', PStr ''/api/'')],
           req_data = NoBody\<rparr>"
    using r' by (simp add: getScanPaths_requests pp hd CURRENT_API_URL_def)
  show ?thesis
    using h1 h3 r r' e e' qe qp by (simp only: simp_thms)
qed

section \<open>Project lookup by name\<close>

lemma apiRequest_not_axios:
  "fst (apiRequest e endpoint method ps data isFormData s) = Inl err \<Longrightarrow> \<not> isAxiosError err"
  by (auto simp: apiRequest_def Let_def split: sum.splits if_splits)

lemma apiRequest_axios_404:
  assumes "http_reply e (trace s) \<lparr>req_method = method, req_url = CURRENT_API_URL @ endpoint,
              req_headers = getApiHeaders s, req_params = ps, req_data = data\<rparr>
            = Inl (AxiosError (Some 404) d m)"
  shows "fst (apiRequest e endpoint method ps data False s)
           = Inl (newError (''API request failed (404): '' @ orElse d m))"
proof -
  have "showNat 404 = ''404''" by code_simp
  then show ?thesis
    using assms by (simp add: apiRequest_def Let_def statusString_def)
qed

lemma getProjectByName_cases:
  "(\<exists>x. fst (getProjectByName e n s) = Inr x)
   \<or> (\<exists>m. fst (getProjectByName e n s) = Inl (newError (''Failed to get project details: '' @ m)))"
proof -
  let ?s1 = "log (''Getting details for project: '' @ n) s"
  let ?a = "apiRequest e (''projects/name/'' @ n @ ''/'') GET [] NoBody False ?s1"
  obtain r s2 where a: "?a = (r, s2)" by (cases ?a)
  show ?thesis
  proof (cases r)
    case (Inl err)
    then have "\<not> isAxiosError err"
      using apiRequest_not_axios[of e "''projects/name/'' @ n @ ''/''" GET "[]" NoBody False ?s1 err] a
      by simp
    then show ?thesis
      using a Inl by (simp add: getProjectByName_def Let_def)
  next
    case (Inr response)
    then show ?thesis
      using a by (simp add: getProjectByName_def Let_def split: option.splits)
  qed
qed

lemma getProjectByName_never_404_message:
  "fst (getProjectByName e n s)
     \<noteq> Inl (newError (''Project '' @ [CHR 0x27] @ n @ [CHR 0x27]
               @ '' not found. Please check the project name and try again.''))"
  using getProjectByName_cases[of e n s] by auto

lemma getProjectByName_empty:
  assumes "fst (apiRequest e (''projects/name/'' @ n @ ''/'') GET [] NoBody False
                  (log (''Getting details for project: '' @ n) s)) = Inr response"
    and "firstResult response = None"
  shows "fst (getProjectByName e n s)
           = Inl (newError (''Failed to get project details: Project '' @ [CHR 0x27] @ n @ [CHR 0x27]
                    @ '' not found or has no data.''))"
proof -
  let ?s1 = "log (''Getting details for project: '' @ n) s"
  let ?a = "apiRequest e (''projects/name/'' @ n @ ''/'') GET [] NoBody False ?s1"
  obtain r s2 where a: "?a = (r, s2)" by (cases ?a)
  then have r: "r = Inr response" using assms(1) by simp
  show ?thesis
    using a r assms(2) by (simp add: getProjectByName_def Let_def)
qed

lemma firstResult_missing:
  "getProp response ''results'' = None \<Longrightarrow> firstResult response = None"
  "getProp response ''results'' = Some (JArr []) \<Longrightarrow> firstResult response = None"
  by (simp_all add: firstResult_def)

text \<open>
  Claim C5 on the code. When the API answers the lookup with status 404,
  \<^verbatim>\<open>getProjectByName\<close> fails with the generic message built from the text of
  \<^verbatim>\<open>apiRequest\<close>, not with the message of its own 404 branch: \<^verbatim>\<open>apiRequest\<close> has already
  replaced the HTTP client's error by a plain \<^verbatim>\<open>Error\<close>, so the test \<^verbatim>\<open>axios.isAxiosError\<close>
  in \<^verbatim>\<open>getProjectByName\<close> never holds (\<open>getProjectByName_never_404_message\<close>). With an
  empty result list it fails with a message that says the project was not found.
\<close>

theorem getProjectByName_404_generic:
  "fst (getProjectByName not_found_env ''demo'' (start_state (Some ''tk1'')))
     = Inl (newError ''Failed to get project details: API request failed (404): Not found.'')
   \<and> fst (getProjectByName empty_page_env ''demo'' (start_state (Some ''tk1'')))
     = Inl (newError (''Failed to get project details: Project '' @ [CHR 0x27] @ ''demo'' @ [CHR 0x27]
              @ '' not found or has no data.''))"
proof -
  have n: "showNat 404 = ''404''" by code_simp
  have a: "fst (getProjectByName not_found_env ''demo'' (start_state (Some ''tk1'')))
     = Inl (newError ''Failed to get project details: API request failed (404): Not found.'')"
    by (simp add: getProjectByName_def apiRequest_def Let_def not_found_env_def quiet_env_def
          statusString_def orElse_def n)
  have b: "fst (getProjectByName empty_page_env ''demo'' (start_state (Some ''tk1'')))
     = Inl (newError (''Failed to get project details: Project '' @ [CHR 0x27] @ ''demo'' @ [CHR 0x27]
              @ '' not found or has no data.''))"
    by (simp add: getProjectByName_def apiRequest_def Let_def empty_page_env_def quiet_env_def
          firstResult_def)
  show ?thesis using a b by (rule conjI)
qed

section \<open>The credential store\<close>

lemma io_error_log [simp]: "io_error (log m s) = io_error s"
  by (simp add: log_def)

lemma token_file_log [simp]: "token_file (log m s) = token_file s"
  by (simp add: log_def)

lemma config_dir_log [simp]: "config_dir (log m s) = config_dir s"
  by (simp add: log_def)

lemma saveToken_writes:
  assumes "io_error s MkDir = None" and "io_error s WriteFile = None"
    and "config_dir s \<noteq> None \<longrightarrow> config_dir s = Some Dir"
    and "token_file s \<noteq> Some Dir"
  shows "token_file (saveToken t s) = Some (File t) \<and> io_error (saveToken t s) = io_error s"
proof (cases "config_dir s")
  case None
  with assms show ?thesis
    by (cases "token_file s")
       (auto simp: saveToken_def existsSync_def mkdirSync_def writeFileSync_def split: node.splits)
next
  case (Some d)
  with assms have "config_dir s = Some Dir" by simp
  with assms show ?thesis
    by (cases "token_file s")
       (auto simp: saveToken_def existsSync_def writeFileSync_def split: node.splits)
qed

lemma loadToken_file:
  "io_error s ReadFile = None \<Longrightarrow> token_file s = Some (File c) \<Longrightarrow> fst (loadToken s) = Some (trim c)"
  by (simp add: loadToken_def existsSync_def readFileSync_def)

lemma clearToken_removes:
  "io_error s Unlink = None \<Longrightarrow> token_file s \<noteq> Some Dir \<Longrightarrow> token_file (clearToken s) = None"
  by (cases "token_file s") (auto simp: clearToken_def existsSync_def unlinkSync_def split: node.splits)

lemma loadToken_after_clear:
  assumes "io_error s Unlink = None"
  shows "fst (loadToken (clearToken s)) = None"
proof (cases "token_file s")
  case None
  then show ?thesis by (simp add: clearToken_def loadToken_def existsSync_def)
next
  case (Some n)
  show ?thesis
  proof (cases n)
    case Dir
    with Some assms show ?thesis
      by (auto simp: clearToken_def loadToken_def existsSync_def unlinkSync_def readFileSync_def
            split: option.splits)
  next
    case (File c)
    with Some assms show ?thesis
      by (simp add: clearToken_def loadToken_def existsSync_def unlinkSync_def)
  qed
qed

lemma dropWhile_id: "xs = [] \<or> \<not> P (hd xs) \<Longrightarrow> dropWhile P xs = xs"
  by (cases xs) auto

lemma trim_id:
  assumes "t = [] \<or> (\<not> isWhiteSpace (hd t) \<and> \<not> isWhiteSpace (last t))"
  shows "trim t = t"
proof (cases "t = []")
  case True
  then show ?thesis by (simp add: trim_def)
next
  case False
  with assms have h: "\<not> isWhiteSpace (hd t)" and l: "\<not> isWhiteSpace (last t)" by auto
  have 1: "dropWhile isWhiteSpace t = t" using h False by (simp add: dropWhile_id)
  have "hd (rev t) = last t" using False by (simp add: hd_rev)
  then have 2: "dropWhile isWhiteSpace (rev t) = rev t" using l False by (simp add: dropWhile_id)
  show ?thesis by (simp add: trim_def 1 2)
qed

lemma loadToken_saveToken:
  assumes "io_error s MkDir = None" and "io_error s WriteFile = None"
    and "io_error s ReadFile = None"
    and "config_dir s \<in> {None, Some Dir}" and "token_file s \<noteq> Some Dir"
  shows "fst (loadToken (saveToken t s)) = Some (trim t)"
proof -
  have c: "config_dir s \<noteq> None \<longrightarrow> config_dir s = Some Dir" using assms(4) by auto
  have w: "token_file (saveToken t s) = Some (File t)" and i: "io_error (saveToken t s) = io_error s"
    using saveToken_writes[OF assms(1,2) c assms(5)] by simp_all
  show ?thesis
    using loadToken_file[of "saveToken t s" t] w i assms(3) by simp
qed

text \<open>
  Claim C3, as the code has it. On a disk where the configuration directory is absent or a
  directory, the token path is not a directory, and creating the directory, writing and
  reading do not fail: \<^verbatim>\<open>saveToken(t)\<close> followed by \<^verbatim>\<open>loadToken()\<close> returns exactly \<open>t\<close> for
  every token \<open>t\<close> that neither begins nor ends with white space (for any \<open>t\<close> it returns
  \<open>t\<close> trimmed, \<open>loadToken_saveToken\<close>). Where removing the file does not fail,
  \<^verbatim>\<open>clearToken()\<close> followed by \<^verbatim>\<open>loadToken()\<close> returns \<^verbatim>\<open>null\<close>.
\<close>

theorem token_round_trip:
  assumes "io_error s MkDir = None" and "io_error s WriteFile = None"
    and "io_error s ReadFile = None"
    and "config_dir s \<in> {None, Some Dir}" and "token_file s \<noteq> Some Dir"
    and "t = [] \<or> (\<not> isWhiteSpace (hd t) \<and> \<not> isWhiteSpace (last t))"
    and "io_error s' Unlink = None"
  shows "fst (loadToken (saveToken t s)) = Some t
       \<and> fst (loadToken (clearToken s')) = None"
  using loadToken_saveToken[OF assms(1-5), of t] trim_id[OF assms(6)] loadToken_after_clear[OF assms(7)]
  by simp

theorem token_round_trip_witness:
  "fst (loadToken (saveToken ''nv_tk_0123456789abcdef'' (start_state None)))
     = Some ''nv_tk_0123456789abcdef''
   \<and> fst (loadToken (clearToken
        ((start_state None)\<lparr>config_dir := Some Dir, token_file := Some (File ''nv_tk_old'')\<rparr>)))
     = None"
proof -
  let ?s = "start_state None"
  let ?s' = "(start_state None)\<lparr>config_dir := Some Dir, token_file := Some (File ''nv_tk_old'')\<rparr>"
  let ?t = "''nv_tk_0123456789abcdef''"
  have 1: "io_error ?s MkDir = None" by (simp add: start_state_def)
  have 2: "io_error ?s WriteFile = None" by (simp add: start_state_def)
  have 3: "io_error ?s ReadFile = None" by (simp add: start_state_def)
  have 4: "config_dir ?s \<in> {None, Some Dir}" by (simp add: start_state_def)
  have 5: "token_file ?s \<noteq> Some Dir" by (simp add: start_state_def)
  have 6: "?t = [] \<or> (\<not> isWhiteSpace (hd ?t) \<and> \<not> isWhiteSpace (last ?t))"
    by (simp add: isWhiteSpace_def)
  have 7: "io_error ?s' Unlink = None" by (simp add: start_state_def)
  show ?thesis
    using token_round_trip[OF 1 2 3 4 5 6 7] .
qed

text \<open>
  Claim C3 as stated fails in three ways: \<^verbatim>\<open>loadToken\<close> trims, so a token with a leading
  space does not come back identical; a write that fails is only logged, and then nothing
  comes back; a removal that fails is only logged, and then the old token comes back.
\<close>

theorem token_round_trip_counterexample:
  "fst (loadToken (saveToken '' tk1'' (start_state None))) \<noteq> Some '' tk1''
   \<and> fst (loadToken (saveToken ''tk1''
        ((start_state None)\<lparr>io_error := (\<lambda>op. Some (newError ''EROFS''))\<rparr>))) \<noteq> Some ''tk1''
   \<and> fst (loadToken (clearToken
        ((start_state None)\<lparr>config_dir := Some Dir, token_file := Some (File ''tk1''),
           io_error := (\<lambda>op. if op = Unlink then Some (newError ''EACCES'') else None)\<rparr>))) \<noteq> None"
proof -
  have a: "fst (loadToken (saveToken '' tk1'' (start_state None))) = Some ''tk1''"
    by (simp add: loadToken_def saveToken_def existsSync_def mkdirSync_def writeFileSync_def
          readFileSync_def start_state_def trim_def isWhiteSpace_def)
  have b: "fst (loadToken (saveToken ''tk1''
        ((start_state None)\<lparr>io_error := (\<lambda>op. Some (newError ''EROFS''))\<rparr>))) = None"
    by (simp add: loadToken_def saveToken_def existsSync_def mkdirSync_def start_state_def)
  have c: "fst (loadToken (clearToken
        ((start_state None)\<lparr>config_dir := Some Dir, token_file := Some (File ''tk1''),
           io_error := (\<lambda>op. if op = Unlink then Some (newError ''EACCES'') else None)\<rparr>))) = Some ''tk1''"
    by (simp add: loadToken_def clearToken_def existsSync_def unlinkSync_def readFileSync_def
          start_state_def trim_def isWhiteSpace_def)
  show ?thesis using a b c by simp
qed

section \<open>API discovery\<close>

subsection \<open>Logging only\<close>

lemma log_logged: "log m s = logged s [m]"
  by (simp add: log_def logged_def)

lemma logged_nil [simp]: "logged s [] = s"
  by (simp add: logged_def)

lemma logged_logged [simp]: "logged (logged s a) b = logged s (a @ b)"
  by (simp add: logged_def)

lemma logged_fields [simp]:
  "token (logged s ms) = token s"
  "config_dir (logged s ms) = config_dir s"
  "token_file (logged s ms) = token_file s"
  "io_error (logged s ms) = io_error s"
  "timers (logged s ms) = timers s"
  "trace (logged s ms) = trace s @ map Log ms"
  by (simp_all add: logged_def)

lemma issued_logged [simp]: "issued s (logged s ms) = map Log ms"
  by (simp add: issued_def)

lemma issued_append: "trace s' = trace s @ evs \<Longrightarrow> issued s s' = evs"
  by (simp add: issued_def)

lemma executeCommand_state:
  "\<exists>ms. snd (executeCommand e args format skipToken s)
     = s\<lparr>trace := trace s @ [Log (''Executing: '' @ commandLine (token s) args format skipToken),
                              Exec (commandLine (token s) args format skipToken)] @ map Log ms\<rparr>"
proof -
  let ?c = "commandLine (token s) args format skipToken"
  let ?s1 = "log (''Executing: '' @ ?c) s"
  show ?thesis
  proof (cases "exec_reply e (trace ?s1) ?c")
    case (Inl err)
    then show ?thesis
      by (intro exI[of _ "[''Failed to execute NightVision command: '' @ message err]"])
         (simp add: executeCommand_def execAsync_def Let_def log_def)
  next
    case (Inr out)
    obtain stdout stderr where out: "out = (stdout, stderr)" by (cases out)
    show ?thesis
    proof (cases "stderr \<noteq> [] \<and> trim stderr \<noteq> []")
      case True
      show ?thesis
      proof (cases "take 2 args = [''swagger'', ''extract'']")
        case sw: True
        with True Inr out show ?thesis
          by (intro exI[of _ "[''NightVision CLI warning/error: '' @ stderr, ''Including stderr in command output for API discovery'']"])
             (simp add: executeCommand_def execAsync_def Let_def log_def)
      next
        case sw: False
        with True Inr out show ?thesis
          by (intro exI[of _ "[''NightVision CLI warning/error: '' @ stderr]"])
             (simp add: executeCommand_def execAsync_def Let_def log_def)
      qed
    next
      case False
      with Inr out show ?thesis
        by (intro exI[of _ "[]"]) (auto simp add: executeCommand_def execAsync_def Let_def log_def)
    qed
  qed
qed

lemma absoluteSourcePaths_logged:
  "\<exists>ms. snd (absoluteSourcePaths e w ps s) = logged s ms"
proof (induction ps arbitrary: s)
  case Nil
  show ?case by (intro exI[of _ "[]"]) simp
next
  case (Cons p ps)
  show ?case
  proof (cases "startsWith p ''/''")
    case True
    obtain ms where "snd (absoluteSourcePaths e w ps s) = logged s ms" using Cons.IH by blast
    with True show ?thesis by (intro exI[of _ ms]) (simp add: split_beta)
  next
    case False
    let ?m = "''Converting relative path '' @ [CHR 0x27] @ p @ [CHR 0x27]
                          @ '' to absolute path '' @ [CHR 0x27] @ path_resolve (cwd e) [w, p] @ [CHR 0x27]"
    obtain ms where "snd (absoluteSourcePaths e w ps (log ?m s)) = logged (log ?m s) ms"
      using Cons.IH by blast
    with False show ?thesis
      by (intro exI[of _ "?m # ms"]) (simp add: split_beta Let_def log_logged)
  qed
qed

lemma chooseOutput_logged: "\<exists>ms. snd (chooseOutput e w out s) = logged s ms"
proof -
  have "snd (chooseOutput e w out s) = s \<or> (\<exists>m. snd (chooseOutput e w out s) = log m s)"
    by (auto simp: chooseOutput_def Let_def)
  then show ?thesis
  proof
    assume "snd (chooseOutput e w out s) = s"
    then show ?thesis by (intro exI[of _ "[]"]) simp
  next
    assume "\<exists>m. snd (chooseOutput e w out s) = log m s"
    then obtain m where "snd (chooseOutput e w out s) = log m s" ..
    then show ?thesis by (intro exI[of _ "[m]"]) (simp add: log_logged)
  qed
qed

lemma vetOutput_logged: "\<exists>ms. snd (vetOutput e f s) = logged s ms"
proof (cases "fs_writable e (dirname f)")
  case True
  then show ?thesis by (intro exI[of _ "[]"]) (simp add: vetOutput_def)
next
  case False
  then show ?thesis
    by (intro exI[of _ "[''Output directory is not writable, redirecting to temp directory'']"])
       (simp add: vetOutput_def log_logged)
qed

subsection \<open>Base names under the temporary directory\<close>

lemma segments_nonempty [simp]: "segments p \<noteq> []"
  by (induction p) (auto split: list.splits)

lemma segments_no_slash: "CHR ''/'' \<notin> set b \<Longrightarrow> segments b = [b]"
  by (induction b) auto

lemma segments_append_slash: "segments (xs @ CHR ''/'' # ys) = segments xs @ segments ys"
proof (induction xs)
  case Nil
  show ?case by simp
next
  case (Cons x xs)
  then show ?case by (cases "segments xs") auto
qed

lemma join_snoc: "join sep (xs @ [b]) = (if xs = [] then b else join sep xs @ sep @ b)"
  by (induction sep xs rule: join.induct) auto

lemma basename_after_slash:
  assumes "b \<noteq> []" and "CHR ''/'' \<notin> set b"
  shows "basename (y @ ''/'' @ b) = b" and "basename b = b"
proof -
  have h: "hd (rev b) \<noteq> CHR ''/''"
    using assms by (metis hd_rev last_in_set)
  have r: "rev b \<noteq> []" using assms by simp
  have d: "dropWhile (\<lambda>c. c = CHR ''/'') (rev b @ zs) = rev b @ zs" for zs
    using h r by (cases "rev b") auto
  have t: "takeWhile (\<lambda>c. c \<noteq> CHR ''/'') (rev b @ CHR ''/'' # zs) = rev b" for zs
    using assms(2) by (subst takeWhile_append2) auto
  show "basename (y @ ''/'' @ b) = b"
    using d[of "CHR ''/'' # rev y"] t[of "rev y"] by (simp add: basename_def)
  have tw: "takeWhile (\<lambda>c. c \<noteq> CHR ''/'') (rev b) = rev b"
    using assms(2) by (auto simp: takeWhile_eq_all_conv)
  have dd: "dropWhile (\<lambda>c. c = CHR ''/'') (rev b) = rev b"
    using d[of "[]"] by simp
  show "basename b = b"
    unfolding basename_def dd tw by simp
qed

lemma normalizeString_snoc:
  assumes "b \<noteq> []" and "CHR ''/'' \<notin> set b" and "b \<noteq> ''.''" and "b \<noteq> ''..''"
  shows "normalizeString a (d @ ''/'' @ b) = b
       \<or> (\<exists>y. normalizeString a (d @ ''/'' @ b) = y @ ''/'' @ b)"
proof -
  have "segments (d @ ''/'' @ b) = segments d @ [b]"
    using segments_append_slash[of d b] assms(2) by (simp add: segments_no_slash)
  then have "foldl (normStep a) [] (segments (d @ ''/'' @ b))
      = foldl (normStep a) [] (segments d) @ [b]"
    using assms by (simp add: normStep_def)
  then show ?thesis
    by (auto simp: normalizeString_def join_snoc)
qed

lemma normalizeString_single:
  assumes "b \<noteq> []" and "CHR ''/'' \<notin> set b" and "b \<noteq> ''.''" and "b \<noteq> ''..''"
  shows "normalizeString a b = b"
  using assms by (simp add: normalizeString_def segments_no_slash normStep_def)

lemma basename_path_join:
  assumes "b \<noteq> []" and "CHR ''/'' \<notin> set b" and "b \<noteq> ''.''" and "b \<noteq> ''..''"
  shows "basename (path_join [d, b]) = b"
proof (cases "d = []")
  case True
  have l: "last b \<noteq> CHR ''/''" using assms(1,2) by (metis last_in_set)
  have "path_join [d, b] = normalize b" using True assms(1) by (simp add: path_join_def)
  also have "\<dots> = (if hd b = CHR ''/'' then ''/'' else []) @ b"
    using assms l by (simp add: normalize_def normalizeString_single Let_def)
  finally have "path_join [d, b] = b"
    using assms(1,2) by (cases b) auto
  then show ?thesis using basename_after_slash(2)[OF assms(1,2)] by simp
next
  case False
  let ?j = "d @ ''/'' @ b"
  let ?n = "normalizeString (\<not> (hd ?j = CHR ''/'')) ?j"
  let ?pre = "if hd ?j = CHR ''/'' then ''/'' else []"
  have l: "last ?j \<noteq> CHR ''/''"
    using assms(1,2) by (metis last_appendR last_in_set append_is_Nil_conv)
  have pj: "path_join [d, b] = normalize ?j" using False assms(1) by (simp add: path_join_def)
  from normalizeString_snoc[OF assms, of "\<not> (hd ?j = CHR ''/'')" d]
  consider (one) "?n = b" | (more) y where "?n = y @ ''/'' @ b" by blast
  then show ?thesis
  proof cases
    case one
    then have "normalize ?j = ?pre @ b"
      using l assms(1) by (simp add: normalize_def Let_def)
    then have "path_join [d, b] = b \<or> path_join [d, b] = [] @ ''/'' @ b"
      using pj by (simp split: if_splits)
    then show ?thesis
      using basename_after_slash[OF assms(1,2)] by metis
  next
    case more
    then have "normalize ?j = ?pre @ y @ ''/'' @ b"
      using l by (simp add: normalize_def Let_def)
    then have "path_join [d, b] = (?pre @ y) @ ''/'' @ b"
      using pj by simp
    then show ?thesis
      using basename_after_slash(1)[OF assms(1,2)] by metis
  qed
qed

lemma spec_yml_output:
  "fst (outputFileFor e w ''/spec.yml'' s) = path_join [tmpdir e, ''spec.yml'']"
proof -
  have d: "dirname ''/spec.yml'' = ''/''" by (simp add: dirname_def)
  have b: "basename ''/spec.yml'' = ''spec.yml''" by (simp add: basename_def)
  have c: "fst (chooseOutput e w ''/spec.yml'' s) = path_join [tmpdir e, ''spec.yml'']"
    by (simp add: chooseOutput_def startsWith_def d b Let_def)
  have "basename (path_join [tmpdir e, ''spec.yml'']) = ''spec.yml''"
    by (rule basename_path_join) simp_all
  then show ?thesis by (simp add: outputFileFor_def split_beta c vetOutput_def)
qed

lemma outputFileFor_logged: "\<exists>ms. snd (outputFileFor e w out s) = logged s ms"
proof -
  obtain ms1 where 1: "snd (chooseOutput e w out s) = logged s ms1"
    using chooseOutput_logged by blast
  obtain ms2 where 2: "snd (vetOutput e (fst (chooseOutput e w out s)) (snd (chooseOutput e w out s)))
       = logged (snd (chooseOutput e w out s)) ms2"
    using vetOutput_logged by blast
  have "snd (outputFileFor e w out s) = logged (logged s ms1) ms2"
    using 2 by (simp add: outputFileFor_def split_beta 1)
  then show ?thesis by (intro exI[of _ "ms1 @ ms2"]) simp
qed

subsection \<open>The run of \<open>discoverApi\<close>\<close>

lemma absoluteSourcePaths_paths:
  "fst (absoluteSourcePaths e w ps s)
     = map (\<lambda>p. if startsWith p ''/'' then p else path_resolve (cwd e) [w, p]) ps"
  by (induction ps arbitrary: s) (simp_all add: split_beta Let_def)

lemma discoverSetup_paths:
  "fst (discoverSetup e w ps s)
     = map (\<lambda>p. if startsWith p ''/'' then p else path_resolve (cwd e) [w, p]) ps"
  by (simp add: discoverSetup_def Let_def absoluteSourcePaths_paths)

lemma discoverSetup_logged: "\<exists>ms. snd (discoverSetup e w ps s) = logged s ms"
proof -
  define s3 where "s3 = log (''Current working directory: '' @ cwd e)
              (log (''Using project path: '' @ w)
                (log ''Discovering API endpoints for source code using swagger extract...'' s))"
  obtain ms0 where s3: "s3 = logged s ms0"
    by (simp add: s3_def log_logged)
  obtain ms where "snd (absoluteSourcePaths e w ps s3) = logged s3 ms"
    using absoluteSourcePaths_logged by blast
  then have "snd (discoverSetup e w ps s) = logged s3 ms"
    by (simp add: discoverSetup_def Let_def s3_def)
  then show ?thesis unfolding s3 by (intro exI[of _ "ms0 @ ms"]) simp
qed

lemma includes_str_prefix: "includes_str (p @ b) p"
proof (cases "p @ b")
  case Nil
  then show ?thesis by simp
next
  case (Cons x xs)
  have "startsWith (p @ b) p" by (simp add: startsWith_def)
  then show ?thesis using Cons by simp
qed

lemma includes_str_append: "includes_str (a @ p @ b) p"
  by (induction a) (simp_all add: includes_str_prefix)

lemma discoverCommand_result:
  "fst (discoverCommand e sourcePaths absPaths options format outputFile s)
     = (case fst (executeCommand e (discoverArgs absPaths options outputFile) format False s) of
          Inr result \<Rightarrow> Inr (result @ [newline] @ ''OpenAPI Specification File: '' @ outputFile)
        | Inl cliError \<Rightarrow> Inl (discoverError sourcePaths options outputFile cliError))"
  by (simp add: discoverCommand_def split_beta split: sum.splits)

lemma discoverCommand_trace:
  "\<exists>ms. trace (snd (discoverCommand e sourcePaths absPaths options format outputFile s))
     = trace s @ [Log (''Executing: '' @ commandLine (token s) (discoverArgs absPaths options outputFile) format False),
                  Exec (commandLine (token s) (discoverArgs absPaths options outputFile) format False)]
       @ map Log ms"
proof -
  let ?E = "executeCommand e (discoverArgs absPaths options outputFile) format False s"
  let ?c = "commandLine (token s) (discoverArgs absPaths options outputFile) format False"
  obtain ms where t: "trace (snd ?E) = trace s @ [Log (''Executing: '' @ ?c), Exec ?c] @ map Log ms"
    using executeCommand_trace by blast
  show ?thesis
  proof (cases "fst ?E")
    case (Inl cliError)
    then show ?thesis using t by (intro exI[of _ ms]) (simp add: discoverCommand_def split_beta)
  next
    case (Inr result)
    let ?ms = "ms @ [''Command result: '' @ take 500 result @ (if length result > 500 then ''...'' else []),
                    ''Output file location: '' @ outputFile,
                    ''Returning the command output with file path information appended'']"
    show ?thesis using t Inr by (intro exI[of _ ?ms]) (simp add: discoverCommand_def split_beta)
  qed
qed

lemma discoverApi_spec_yml:
  fixes e :: env and sourcePaths :: "string list" and projectPath :: string
    and options :: discover_options
  assumes out: "output_opt options = ''/spec.yml''" and lang: "lang options \<noteq> []"
  defines "absPaths \<equiv> map (\<lambda>p. if startsWith p ''/'' then p else path_resolve (cwd e) [projectPath, p]) sourcePaths"
  defines "args \<equiv> discoverArgs absPaths options (path_join [tmpdir e, ''spec.yml''])"
  shows "\<exists>s6. token s6 = token s
       \<and> commandsOf (issued s (snd (discoverApi e sourcePaths options format projectPath s)))
           = [commandLine (token s) args format False]
       \<and> fst (discoverApi e sourcePaths options format projectPath s)
           = (case fst (executeCommand e args format False s6) of
                Inr result \<Rightarrow> Inr (result @ [newline] @ ''OpenAPI Specification File: ''
                                      @ path_join [tmpdir e, ''spec.yml''])
              | Inl cliError \<Rightarrow>
                  Inl (newError (''Failed to discover API endpoints: ''
                         @ message (discoverError sourcePaths options (path_join [tmpdir e, ''spec.yml'']) cliError))))"
proof -
  let ?F = "path_join [tmpdir e, ''spec.yml'']"
  let ?S = "discoverSetup e projectPath sourcePaths s"
  obtain ms1 where s1: "snd ?S = logged s ms1" using discoverSetup_logged by blast
  have a: "fst ?S = absPaths" by (simp add: discoverSetup_paths absPaths_def)
  let ?O = "outputFileFor e projectPath ''/spec.yml'' (snd ?S)"
  obtain ms2 where s2: "snd ?O = logged (snd ?S) ms2" using outputFileFor_logged by blast
  have f: "fst ?O = ?F" by (rule spec_yml_output)
  define s6 where "s6 = snd ?O"
  have "s6 = logged (snd ?S) ms2" by (simp only: s6_def s2)
  then have s6: "s6 = logged s (ms1 @ ms2)" by (simp only: s1 logged_logged)
  let ?D = "discoverCommand e sourcePaths absPaths options format ?F s6"
  let ?c = "commandLine (token s) args format False"
  obtain ms3 where "trace (snd ?D) = trace s6 @ [Log (''Executing: '' @ commandLine (token s6) args format False),
                  Exec (commandLine (token s6) args format False)] @ map Log ms3"
    using discoverCommand_trace[of e sourcePaths absPaths options format ?F s6] by (auto simp: args_def)
  then have t: "trace (snd ?D) = trace s @ map Log (ms1 @ ms2) @ [Log (''Executing: '' @ ?c), Exec ?c] @ map Log ms3"
    by (simp add: s6)
  have d: "discoverApi e sourcePaths options format projectPath s
      = (case fst ?D of
           Inr text \<Rightarrow> (Inr text, snd ?D)
         | Inl err \<Rightarrow> (Inl (newError (''Failed to discover API endpoints: '' @ message err)),
                       log (''Error discovering API endpoints: '' @ message err) (snd ?D)))"
    using lang by (simp add: discoverApi_def split_beta out a f s6_def cong: sum.case_cong)
  have cmds: "commandsOf (issued s (snd (discoverApi e sourcePaths options format projectPath s))) = [?c]"
    by (cases "fst ?D") (simp_all add: d issued_def t)
  have res: "fst (discoverApi e sourcePaths options format projectPath s)
           = (case fst (executeCommand e args format False s6) of
                Inr result \<Rightarrow> Inr (result @ [newline] @ ''OpenAPI Specification File: '' @ ?F)
              | Inl cliError \<Rightarrow>
                  Inl (newError (''Failed to discover API endpoints: ''
                         @ message (discoverError sourcePaths options ?F cliError))))"
    by (simp add: d discoverCommand_result args_def split: sum.splits)
  have tok: "token s6 = token s" by (simp add: s6)
  show ?thesis
    using tok cmds res by blast
qed


lemma discoverArgs_output:
  "\<exists>pre post. discoverArgs absPaths options f = pre @ [''--output'', f] @ post"
  by (intro exI[of _ "[''swagger'', ''extract''] @ absPaths @ [''--lang'', lang options]
       @ flagIf ''--target'' (target options) @ flagIf ''--target-id'' (target_id options)
       @ flagIf ''--project'' (project options) @ flagIf ''--project-id'' (project_id options)"]
     exI[of _ "flagIf ''--exclude'' (exclude options) @ flagIf ''--version'' (version options)
       @ (if no_upload options \<noteq> Some False then [''--no-upload''] else [])
       @ (if dump_code options = Some True then [''--dump-code''] else [])"])
     (simp add: discoverArgs_def)

lemma discoverApi_no_lang:
  assumes "lang options = []"
  shows "commandsOf (issued s (snd (discoverApi e sourcePaths options format projectPath s))) = []"
    and "fst (discoverApi e sourcePaths options format projectPath s)
           = Inl (newError ''Failed to discover API endpoints: Language is required for API discovery'')"
proof -
  obtain ms where "snd (discoverSetup e projectPath sourcePaths s) = logged s ms"
    using discoverSetup_logged by blast
  then show "commandsOf (issued s (snd (discoverApi e sourcePaths options format projectPath s))) = []"
    using assms by (simp add: discoverApi_def split_beta log_logged)
  show "fst (discoverApi e sourcePaths options format projectPath s)
           = Inl (newError ''Failed to discover API endpoints: Language is required for API discovery'')"
    using assms by (simp add: discoverApi_def split_beta)
qed

text \<open>
  Claim C9. For every call of \<^verbatim>\<open>discoverApi\<close> whose output is \<^verbatim>\<open>/spec.yml\<close>, whatever the disk
  and the temporary directory are: the output file is the temporary directory joined with
  the base name of the requested path, and has that same base name; the one command that
  is run (none is run when the language is empty, the call then fails first) carries it
  after \<^verbatim>\<open>--output\<close>; and a string returned on success ends with the line that names it,
  so contains it.
\<close>

theorem discoverApi_root_output_redirected:
  assumes "output_opt options = ''/spec.yml''"
  shows "\<exists>outputFile pre post.
           outputFile = path_join [tmpdir e, basename (output_opt options)]
         \<and> basename outputFile = basename (output_opt options)
         \<and> commandsOf (issued s (snd (discoverApi e sourcePaths options format projectPath s)))
             = (if lang options = [] then []
                else [commandLine (token s) (pre @ [''--output'', outputFile] @ post) format False])
         \<and> (\<forall>tx. fst (discoverApi e sourcePaths options format projectPath s) = Inr tx
               \<longrightarrow> includes_str tx outputFile
                 \<and> (\<exists>result. tx = result @ [newline] @ ''OpenAPI Specification File: '' @ outputFile))"
proof (cases "lang options = []")
  case True
  have b: "basename (output_opt options) = ''spec.yml''"
    by (simp add: assms(1) basename_def)
  have bb: "basename (path_join [tmpdir e, ''spec.yml'']) = ''spec.yml''"
    by (rule basename_path_join) simp_all
  show ?thesis
    using True b bb discoverApi_no_lang[OF True, where s = s and e = e and sourcePaths = sourcePaths
        and format = format and projectPath = projectPath]
    by (intro exI[of _ "path_join [tmpdir e, ''spec.yml'']"] exI[of _ "[]"] exI[of _ "[]"]) simp
next
  case lang: False
  let ?F = "path_join [tmpdir e, ''spec.yml'']"
  let ?absPaths = "map (\<lambda>p. if startsWith p ''/'' then p else path_resolve (cwd e) [projectPath, p]) sourcePaths"
  have b: "basename (output_opt options) = ''spec.yml''"
    by (simp add: assms(1) basename_def)
  have bb: "basename ?F = ''spec.yml''"
    by (rule basename_path_join) simp_all
  obtain s6 where
    cmds: "commandsOf (issued s (snd (discoverApi e sourcePaths options format projectPath s)))
           = [commandLine (token s) (discoverArgs ?absPaths options ?F) format False]"
    and res: "fst (discoverApi e sourcePaths options format projectPath s)
           = (case fst (executeCommand e (discoverArgs ?absPaths options ?F) format False s6) of
                Inr result \<Rightarrow> Inr (result @ [newline] @ ''OpenAPI Specification File: '' @ ?F)
              | Inl cliError \<Rightarrow>
                  Inl (newError (''Failed to discover API endpoints: ''
                         @ message (discoverError sourcePaths options ?F cliError))))"
    using discoverApi_spec_yml[OF assms lang, where e = e and sourcePaths = sourcePaths and format = format
        and projectPath = projectPath and s = s] by blast
  obtain pre post where pp: "discoverArgs ?absPaths options ?F = pre @ [''--output'', ?F] @ post"
    using discoverArgs_output by blast
  have inc: "includes_str tx ?F
      \<and> (\<exists>result. tx = result @ [newline] @ ''OpenAPI Specification File: '' @ ?F)"
    if "fst (discoverApi e sourcePaths options format projectPath s) = Inr tx" for tx
  proof -
    from that res obtain result where t: "tx = result @ [newline] @ ''OpenAPI Specification File: '' @ ?F"
      by (auto split: sum.splits)
    have "includes_str ((result @ [newline] @ ''OpenAPI Specification File: '') @ ?F @ []) ?F"
      by (rule includes_str_append)
    then show ?thesis using t by auto
  qed
  show ?thesis
    using b bb cmds pp inc lang
    by (intro exI[of _ ?F] exI[of _ pre] exI[of _ post]) (simp only: simp_thms if_False, blast)
qed

theorem discoverApi_root_output_redirected_witness:
  "output_opt \<lparr>project = None, project_id = None, lang = ''js'', target = None, target_id = None,
       output_opt = ''/spec.yml'', exclude = None, version = None, no_upload = None,
       dump_code = None, verbose = Some True\<rparr> = ''/spec.yml''
   \<and> commandsOf (issued (start_state (Some ''tk1''))
        (snd (discoverApi quiet_env [''src'']
           \<lparr>project = None, project_id = None, lang = ''js'', target = None, target_id = None,
            output_opt = ''/spec.yml'', exclude = None, version = None, no_upload = None,
            dump_code = None, verbose = Some True\<rparr> FText ''/proj'' (start_state (Some ''tk1'')))))
      = [''nightvision swagger extract /proj/src --lang js --output /tmp/spec.yml --no-upload -F text --api-url https://api.nightvision.net/api/v1/ --token tk1'']
   \<and> fst (discoverApi quiet_env [''src'']
           \<lparr>project = None, project_id = None, lang = ''js'', target = None, target_id = None,
            output_opt = ''/spec.yml'', exclude = None, version = None, no_upload = None,
            dump_code = None, verbose = Some True\<rparr> FText ''/proj'' (start_state (Some ''tk1'')))
      = Inr ([newline] @ ''OpenAPI Specification File: /tmp/spec.yml'')
   \<and> includes_str ([newline] @ ''OpenAPI Specification File: /tmp/spec.yml'') ''/tmp/spec.yml''"
proof -
  let ?O = "\<lparr>project = None, project_id = None, lang = ''js'', target = None, target_id = None,
       output_opt = ''/spec.yml'', exclude = None, version = None, no_upload = None,
       dump_code = None, verbose = Some True\<rparr>"
  let ?s = "start_state (Some ''tk1'')"
  let ?R = "discoverApi quiet_env [''src''] ?O FText ''/proj'' ?s"
  have h1: "output_opt ?O = ''/spec.yml''" by simp
  have f: "path_join [tmpdir quiet_env, basename (output_opt ?O)] = ''/tmp/spec.yml''"
    by code_simp
  have r: "fst ?R = Inr ([newline] @ ''OpenAPI Specification File: /tmp/spec.yml'')"
    by code_simp
  have c: "commandsOf (issued ?s (snd ?R))
      = [''nightvision swagger extract /proj/src --lang js --output /tmp/spec.yml --no-upload -F text --api-url https://api.nightvision.net/api/v1/ --token tk1'']"
    by code_simp
  from discoverApi_root_output_redirected[OF h1, of quiet_env ?s "[''src'']" FText "''/proj''"]
  have "includes_str ([newline] @ ''OpenAPI Specification File: /tmp/spec.yml'') ''/tmp/spec.yml''"
    unfolding f using r by blast
  then show ?thesis
    using h1 c r by (simp only: simp_thms)
qed

section \<open>The credential check of the tools\<close>

lemma issued_same [simp]: "issued s s = []"
  by (simp add: issued_def)

text \<open>
  Claim C1, as the code has it. Every registered tool other than authenticate and the
  prompt phase of API discovery, called while no token is held (\<^verbatim>\<open>null\<close>, or the empty
  string), returns the error-flagged envelope whose text says that authentication is
  required, and leaves the state as it was: no command is run, no request is sent, nothing
  is logged or scheduled.
\<close>

theorem guarded_tools_require_token:
  assumes "falsy (token s)" and "checksCredential c"
  shows "handle e rest c s = (notAuthenticated, s)
       \<and> isError (fst (handle e rest c s)) = Some True
       \<and> content (fst (handle e rest c s))
            = [''Not authenticated. Please use the authenticate tool to set a token first.'']
       \<and> issued s (snd (handle e rest c s)) = []"
proof -
  have h: "handle e rest c s = (notAuthenticated, s)"
    using assms
    by (cases c)
       (simp_all add: start_scan_def get_scan_checks_def get_scan_paths_def guarded_def getToken_def)
  show ?thesis
    by (simp add: h notAuthenticated_def errorResult_def)
qed

theorem guarded_tools_require_token_witness:
  "handle quiet_env idle_rest
      (StartScanCall \<lparr>project = Some ''demo'', project_id = None, auth = None, auth_id = None,
                        no_auth = None, target_name = ''shop'', format_arg = None\<rparr>)
      (start_state None)
     = (notAuthenticated, start_state None)
   \<and> handle quiet_env idle_rest (GuardedCall CreateNucleiTemplate (JObj [(''name'', JStr ''t1'')]))
      (start_state None)
     = (notAuthenticated, start_state None)
   \<and> isError notAuthenticated = Some True
   \<and> issued (start_state None)
        (snd (handle quiet_env idle_rest (GuardedCall DownloadTraffic (JObj [])) (start_state None))) = []"
proof -
  let ?s = "start_state None"
  let ?c1 = "StartScanCall \<lparr>project = Some ''demo'', project_id = None, auth = None, auth_id = None,
                        no_auth = None, target_name = ''shop'', format_arg = None\<rparr>"
  let ?c2 = "GuardedCall CreateNucleiTemplate (JObj [(''name'', JStr ''t1'')])"
  let ?c3 = "GuardedCall DownloadTraffic (JObj [])"
  have f: "falsy (token ?s)" by (simp add: start_state_def falsy_def)
  have 1: "checksCredential ?c1" by simp
  have 2: "checksCredential ?c2" by simp
  have 3: "checksCredential ?c3" by simp
  have e: "isError notAuthenticated = Some True" by (simp add: notAuthenticated_def errorResult_def)
  show ?thesis
    using guarded_tools_require_token[OF f 1, of quiet_env idle_rest]
          guarded_tools_require_token[OF f 2, of quiet_env idle_rest]
          guarded_tools_require_token[OF f 3, of quiet_env idle_rest] e
    by simp
qed

text \<open>
  Claim C1 as stated covers every registered handler. The authenticate tool is how a token
  is obtained: called without a token held and without parameters it answers with an
  envelope that is not error-flagged; called with a token parameter it sends the
  validation request; called with \<^verbatim>\<open>create_new\<close> it runs the login and token commands. The
  prompt phase of API discovery checks nothing and answers with a prompt flagged as no
  error.
\<close>

theorem authenticate_without_token_counterexample:
  "isError (fst (handle quiet_env idle_rest
       (AuthenticateCall \<lparr>token_param = None, create_new = None, expiry_date = None\<rparr>)
       (start_state None))) \<noteq> Some True
   \<and> requestsOf (issued (start_state None) (snd (handle quiet_env idle_rest
       (AuthenticateCall \<lparr>token_param = Some ''tk1'', create_new = None, expiry_date = None\<rparr>)
       (start_state None)))) \<noteq> []
   \<and> commandsOf (issued (start_state None) (snd (handle quiet_env idle_rest
       (AuthenticateCall \<lparr>token_param = None, create_new = Some True, expiry_date = None\<rparr>)
       (start_state None)))) \<noteq> []
   \<and> isError (fst (handle quiet_env idle_rest DiscoverApiPromptCall (start_state None))) \<noteq> Some True"
proof -
  let ?s = "start_state None"
  have a: "isError (fst (handle quiet_env idle_rest
       (AuthenticateCall \<lparr>token_param = None, create_new = None, expiry_date = None\<rparr>) ?s)) = None"
    by (simp add: authenticate_def authenticateStatus_def getToken_def start_state_def textResult_def)
  have b: "requestsOf (issued ?s (snd (handle quiet_env idle_rest
       (AuthenticateCall \<lparr>token_param = Some ''tk1'', create_new = None, expiry_date = None\<rparr>) ?s)))
     = [\<lparr>req_method = GET, req_url = ''https://api.nightvision.net/api/v1/user/me/'',
         req_headers = [(''Authorization'', ''Token tk1''), (''Content-Type'', ''application/json'')],
         req_params = [], req_data = NoBody\<rparr>]"
    by code_simp
  have c: "length (commandsOf (issued ?s (snd (handle quiet_env idle_rest
       (AuthenticateCall \<lparr>token_param = None, create_new = Some True, expiry_date = None\<rparr>) ?s)))) = 2"
    by code_simp
  have d: "isError (fst (handle quiet_env idle_rest DiscoverApiPromptCall ?s)) = Some False"
    by (simp add: discover_api_prompt_def)
  show ?thesis
    using a b c d by auto
qed

section \<open>The start-scan and authenticate tools\<close>

lemma falsy_not_truthy: "falsy x = (\<not> truthy x)"
  by (simp add: falsy_def truthy_def split: option.splits)

subsection \<open>What the dispatched launch does\<close>

lemma extractId_logged: "\<exists>ms. snd (extractId e result s) = logged s ms"
proof -
  have "snd (extractId e result s) = s \<or> (\<exists>m. snd (extractId e result s) = log m s)"
    by (auto simp: extractId_def split: sum.splits json.splits option.splits)
  then show ?thesis
  proof
    assume "snd (extractId e result s) = s"
    then show ?thesis by (intro exI[of _ "[]"]) simp
  next
    assume "\<exists>m. snd (extractId e result s) = log m s"
    then obtain m where "snd (extractId e result s) = log m s" ..
    then show ?thesis by (intro exI[of _ "[m]"]) (simp add: log_logged)
  qed
qed

lemma scanStarted_outcome:
  "\<exists>ms. scanStarted e result s
     = logged s (ms @ [''Scan started successfully in background: '' @ take 100 result @ ''...''])"
proof -
  let ?last = "''Scan started successfully in background: '' @ take 100 result @ ''...''"
  have "scanStarted e result s = log ?last s \<or> (\<exists>m. scanStarted e result s = log ?last (log m s))"
    by (auto simp: scanStarted_def Let_def split: sum.splits option.splits)
  then show ?thesis
  proof
    assume "scanStarted e result s = log ?last s"
    then show ?thesis by (intro exI[of _ "[]"]) (simp add: log_logged)
  next
    assume "\<exists>m. scanStarted e result s = log ?last (log m s)"
    then obtain m where "scanStarted e result s = log ?last (log m s)" ..
    then show ?thesis by (intro exI[of _ "[m]"]) (simp add: log_logged)
  qed
qed

lemma startScan_state:
  "\<exists>ms. snd (startScan e targetName options format s)
     = s\<lparr>trace := trace s
          @ [Log (''Executing: '' @ commandLine (token s) (scanArgs targetName options) format False),
             Exec (commandLine (token s) (scanArgs targetName options) format False)] @ map Log ms\<rparr>"
proof -
  let ?c = "commandLine (token s) (scanArgs targetName options) format False"
  let ?E = "executeCommand e (scanArgs targetName options) format False s"
  obtain ms where ex: "snd ?E = s\<lparr>trace := trace s @ [Log (''Executing: '' @ ?c), Exec ?c] @ map Log ms\<rparr>"
    using executeCommand_state by blast
  show ?thesis
  proof (cases "fst ?E")
    case (Inl err)
    then show ?thesis using ex by (intro exI[of _ ms]) (simp add: startScan_def split_beta)
  next
    case (Inr result)
    show ?thesis
    proof (cases "format = FJson")
      case False
      then show ?thesis using ex Inr by (intro exI[of _ ms]) (simp add: startScan_def split_beta)
    next
      case True
      obtain ms' where "snd (extractId e result (snd ?E)) = logged (snd ?E) ms'"
        using extractId_logged by blast
      then have "snd (startScan e targetName options format s) = logged (snd ?E) ms'"
        using True Inr by (simp add: startScan_def split_beta)
      then show ?thesis
        unfolding ex by (intro exI[of _ "ms @ ms'"]) (simp add: logged_def)
    qed
  qed
qed

lemma run_task_outcome:
  "\<exists>ms. run_task e (StartScanTask targetName options format) s
     = s\<lparr>trace := trace s
          @ [Log (''Executing: '' @ commandLine (token s) (scanArgs targetName options) format False),
             Exec (commandLine (token s) (scanArgs targetName options) format False)]
          @ map Log ms
          @ [Log (case fst (startScan e targetName options format s) of
                    Inr result \<Rightarrow> ''Scan started successfully in background: '' @ take 100 result @ ''...''
                  | Inl err \<Rightarrow> ''Error in background scan execution: '' @ message err)]\<rparr>"
proof -
  let ?c = "commandLine (token s) (scanArgs targetName options) format False"
  let ?S = "startScan e targetName options format s"
  obtain ms where st: "snd ?S = s\<lparr>trace := trace s @ [Log (''Executing: '' @ ?c), Exec ?c] @ map Log ms\<rparr>"
    using startScan_state by blast
  show ?thesis
  proof (cases "fst ?S")
    case (Inl err)
    have "run_task e (StartScanTask targetName options format) s
        = logged (snd ?S) [''Error in background scan execution: '' @ message err]"
      using Inl by (simp add: split_beta log_logged)
    then show ?thesis
      unfolding st using Inl
      by (intro exI[of _ ms]) (simp add: logged_def)
  next
    case (Inr result)
    obtain ms' where "scanStarted e result (snd ?S)
        = logged (snd ?S) (ms' @ [''Scan started successfully in background: '' @ take 100 result @ ''...''])"
      using scanStarted_outcome by blast
    then have "run_task e (StartScanTask targetName options format) s
        = logged (snd ?S) (ms' @ [''Scan started successfully in background: '' @ take 100 result @ ''...''])"
      using Inr by (simp add: split_beta)
    then show ?thesis
      unfolding st using Inr by (intro exI[of _ "ms @ ms'"]) (simp add: logged_def)
  qed
qed

subsection \<open>The start-scan handler\<close>

lemma start_scan_accepted:
  assumes "truthy (token s)" and "truthy (project args) \<or> truthy (project_id args)"
  shows "start_scan e args s
     = (textResult (scanConfirmation (target_name args) (project args) (project_id args)),
        setTimeout
          (StartScanTask (target_name args)
             \<lparr>project = project args, project_id = project_id args, auth = auth args,
              auth_id = auth_id args, no_auth = no_auth args\<rparr>
             (formatOr FJson (format_arg args)))
          (log (''Starting scan for target '' @ sq @ target_name args @ sq @ '' in background...'') s))"
  using assms by (auto simp: start_scan_def getToken_def falsy_not_truthy Let_def)

lemma start_scan_envelope:
  assumes "truthy (token s)" and "truthy (project args) \<or> truthy (project_id args)"
  shows "fst (start_scan e args s)
     = \<lparr>content =
          [''Scan initiated for target '' @ sq @ target_name args @ sq @ ''.'' @ nl @ nl
           @ ''The scan is being processed in the background and may take several minutes to complete.''
           @ nl @ nl
           @ ''To check the status of this scan, you can use the get-scan-status tool in either of these ways:''
           @ nl @ nl
           @ ''1. Using the target name:'' @ nl
           @ ''   {'' @ nl
           @ ''     '' @ dq @ ''target_name'' @ dq @ '': '' @ dq @ target_name args @ dq @ '','' @ nl
           @ ''     '' @ dq @ ''project'' @ dq @ '': '' @ dq
           @ (case project args of None \<Rightarrow> [] | Some p \<Rightarrow> p) @ dq
           @ (case project_id args of
                None \<Rightarrow> []
              | Some p \<Rightarrow> if p = [] then []
                          else '','' @ nl @ ''     '' @ dq @ ''project_id'' @ dq @ '': '' @ dq @ p @ dq)
           @ nl @ ''   }'' @ nl @ nl
           @ ''2. Or when the scan ID becomes available, you can use:'' @ nl
           @ ''   {'' @ nl
           @ ''     '' @ dq @ ''scan_id'' @ dq @ '': '' @ dq @ ''scan-id-here'' @ dq @ nl
           @ ''   }'' @ nl @ nl
           @ ''You can also list all your scans with the list-scans tool.''],
        isError = None, promptResponse = None\<rparr>"
proof -
  have o: "orElse (project args) [] = (case project args of None \<Rightarrow> [] | Some p \<Rightarrow> p)"
    by (simp add: orElse_def truthy_def split: option.splits)
  show ?thesis
    unfolding start_scan_accepted[OF assms] fst_conv textResult_def scanConfirmation_def o
    by (rule refl)
qed


text \<open>
  Claim C2. A call of the start-scan tool that passes the credential check and the project
  check returns the confirmation text in an envelope with no error flag, the same one in
  every world: it does not depend on any answer of the shell. When the handler returns, it
  has written one log line and appended the launch to the timer queue, and nothing else in
  the state has changed: no command has been run and no request sent, so the launch begins
  in a later turn (with an empty queue before the call, it is what the next turn runs).
  Run in any world and state, the launch issues the one scan command and otherwise only
  writes to the log, and the last line it writes is its outcome: the first 100 characters
  of the result when \<^verbatim>\<open>startScan\<close> succeeds, the message of the error when it fails. No
  other part of the state changes and no envelope is produced, so the caller, who already
  has the confirmation, never sees the outcome.
\<close>

theorem start_scan_fire_and_forget:
  assumes "truthy (token s)" and "truthy (project args) \<or> truthy (project_id args)"
  shows "\<exists>opts fmt task.
           opts = \<lparr>project = project args, project_id = project_id args, auth = auth args,
                   auth_id = auth_id args, no_auth = no_auth args\<rparr>
         \<and> fmt = (case format_arg args of None \<Rightarrow> FJson | Some f \<Rightarrow> f)
         \<and> task = StartScanTask (target_name args) opts fmt
         \<and> fst (start_scan e args s)
             = \<lparr>content =
                [''Scan initiated for target '' @ sq @ target_name args @ sq @ ''.'' @ nl @ nl
                 @ ''The scan is being processed in the background and may take several minutes to complete.''
                 @ nl @ nl
                 @ ''To check the status of this scan, you can use the get-scan-status tool in either of these ways:''
                 @ nl @ nl
                 @ ''1. Using the target name:'' @ nl
                 @ ''   {'' @ nl
                 @ ''     '' @ dq @ ''target_name'' @ dq @ '': '' @ dq @ target_name args @ dq @ '','' @ nl
                 @ ''     '' @ dq @ ''project'' @ dq @ '': '' @ dq
                 @ (case project args of None \<Rightarrow> [] | Some p \<Rightarrow> p) @ dq
                 @ (case project_id args of
                      None \<Rightarrow> []
                    | Some p \<Rightarrow> if p = [] then []
                                else '','' @ nl @ ''     '' @ dq @ ''project_id'' @ dq @ '': '' @ dq @ p @ dq)
                 @ nl @ ''   }'' @ nl @ nl
                 @ ''2. Or when the scan ID becomes available, you can use:'' @ nl
                 @ ''   {'' @ nl
                 @ ''     '' @ dq @ ''scan_id'' @ dq @ '': '' @ dq @ ''scan-id-here'' @ dq @ nl
                 @ ''   }'' @ nl @ nl
                 @ ''You can also list all your scans with the list-scans tool.''],
                isError = None, promptResponse = None\<rparr>
         \<and> isError (fst (start_scan e args s)) = None
         \<and> fst (start_scan e' args s) = fst (start_scan e args s)
         \<and> commandsOf (issued s (snd (start_scan e args s))) = []
         \<and> requestsOf (issued s (snd (start_scan e args s))) = []
         \<and> snd (start_scan e args s)
             = s\<lparr>trace := trace s @ [Log (''Starting scan for target '' @ sq @ target_name args @ sq
                                           @ '' in background...'')],
                 timers := timers s @ [task]\<rparr>
         \<and> timers (snd (start_scan e args s)) = timers s @ [task]
         \<and> (\<forall>w. timers s = [] \<longrightarrow>
                run_next_timer w (snd (start_scan e args s))
                  = run_task w task (snd (start_scan e args s)\<lparr>timers := []\<rparr>))
         \<and> (\<forall>w s'. \<exists>ms.
                run_task w task s'
                  = s'\<lparr>trace := trace s'
                       @ [Log (''Executing: ''
                               @ commandLine (token s') (scanArgs (target_name args) opts) fmt False),
                          Exec (commandLine (token s') (scanArgs (target_name args) opts) fmt False)]
                       @ map Log ms
                       @ [Log (case fst (startScan w (target_name args) opts fmt s') of
                                 Inr result \<Rightarrow>
                                   ''Scan started successfully in background: ''
                                   @ take 100 result @ ''...''
                               | Inl err \<Rightarrow>
                                   ''Error in background scan execution: '' @ message err)]\<rparr>)"
proof -
  let ?opts = "\<lparr>project = project args, project_id = project_id args, auth = auth args,
                auth_id = auth_id args, no_auth = no_auth args\<rparr>"
  let ?fmt = "case format_arg args of None \<Rightarrow> FJson | Some f \<Rightarrow> f"
  let ?task = "StartScanTask (target_name args) ?opts ?fmt"
  let ?line = "''Starting scan for target '' @ sq @ target_name args @ sq @ '' in background...''"
  note h = start_scan_envelope[OF assms]
  have run: "\<forall>w s'. \<exists>ms.
                run_task w ?task s'
                  = s'\<lparr>trace := trace s'
                       @ [Log (''Executing: ''
                               @ commandLine (token s') (scanArgs (target_name args) ?opts) ?fmt False),
                          Exec (commandLine (token s') (scanArgs (target_name args) ?opts) ?fmt False)]
                       @ map Log ms
                       @ [Log (case fst (startScan w (target_name args) ?opts ?fmt s') of
                                 Inr result \<Rightarrow>
                                   ''Scan started successfully in background: ''
                                   @ take 100 result @ ''...''
                               | Inl err \<Rightarrow>
                                   ''Error in background scan execution: '' @ message err)]\<rparr>"
    using run_task_outcome by blast
  have st: "snd (start_scan e args s)
      = s\<lparr>trace := trace s @ [Log ?line], timers := timers s @ [?task]\<rparr>"
    by (simp add: start_scan_accepted[OF assms] setTimeout_def log_def formatOr_def)
  have nx: "\<forall>w. timers s = [] \<longrightarrow>
                run_next_timer w (snd (start_scan e args s))
                  = run_task w ?task (snd (start_scan e args s)\<lparr>timers := []\<rparr>)"
    unfolding st by (simp add: run_next_timer_def)
  have i: "issued s (snd (start_scan e args s)) = [Log ?line]"
    unfolding st by (simp add: issued_def)
  have c: "commandsOf (issued s (snd (start_scan e args s))) = []"
    and r: "requestsOf (issued s (snd (start_scan e args s))) = []"
    unfolding i by simp_all
  have q: "timers (snd (start_scan e args s)) = timers s @ [?task]"
    unfolding st by simp
  have ie: "isError (fst (start_scan e args s)) = None"
    unfolding h by simp
  have same: "fst (start_scan e' args s) = fst (start_scan e args s)"
    unfolding h by (rule refl)
  show ?thesis
    apply (rule exI[of _ ?opts])
    apply (rule exI[of _ ?fmt])
    apply (rule exI[of _ ?task])
    apply (intro conjI)
               apply (rule refl)
              apply (rule refl)
             apply (rule refl)
            apply (rule h)
           apply (rule ie)
          apply (rule same)
         apply (rule c)
        apply (rule r)
       apply (rule st)
      apply (rule q)
     apply (rule nx)
    apply (rule run)
    done
qed

theorem start_scan_fire_and_forget_witness:
  "truthy (token (start_state (Some ''tk1'')))
   \<and> fst (start_scan failing_env
         \<lparr>project = Some ''demo'', project_id = None, auth = None, auth_id = None, no_auth = None,
          target_name = ''shop'', format_arg = None\<rparr> (start_state (Some ''tk1'')))
     = \<lparr>content =
         [''Scan initiated for target '' @ sq @ ''shop'' @ sq @ ''.'' @ nl @ nl
          @ ''The scan is being processed in the background and may take several minutes to complete.''
          @ nl @ nl
          @ ''To check the status of this scan, you can use the get-scan-status tool in either of these ways:''
          @ nl @ nl
          @ ''1. Using the target name:'' @ nl
          @ ''   {'' @ nl
          @ ''     '' @ dq @ ''target_name'' @ dq @ '': '' @ dq @ ''shop'' @ dq @ '','' @ nl
          @ ''     '' @ dq @ ''project'' @ dq @ '': '' @ dq @ ''demo'' @ dq @ nl
          @ ''   }'' @ nl @ nl
          @ ''2. Or when the scan ID becomes available, you can use:'' @ nl
          @ ''   {'' @ nl
          @ ''     '' @ dq @ ''scan_id'' @ dq @ '': '' @ dq @ ''scan-id-here'' @ dq @ nl
          @ ''   }'' @ nl @ nl
          @ ''You can also list all your scans with the list-scans tool.''],
        isError = None, promptResponse = None\<rparr>
   \<and> fst (start_scan launching_env
         \<lparr>project = Some ''demo'', project_id = None, auth = None, auth_id = None, no_auth = None,
          target_name = ''shop'', format_arg = None\<rparr> (start_state (Some ''tk1'')))
     = fst (start_scan failing_env
         \<lparr>project = Some ''demo'', project_id = None, auth = None, auth_id = None, no_auth = None,
          target_name = ''shop'', format_arg = None\<rparr> (start_state (Some ''tk1'')))
   \<and> commandsOf (issued (start_state (Some ''tk1'')) (snd (start_scan failing_env
         \<lparr>project = Some ''demo'', project_id = None, auth = None, auth_id = None, no_auth = None,
          target_name = ''shop'', format_arg = None\<rparr> (start_state (Some ''tk1''))))) = []
   \<and> trace (snd (start_scan launching_env
         \<lparr>project = Some ''demo'', project_id = None, auth = None, auth_id = None, no_auth = None,
          target_name = ''shop'', format_arg = None\<rparr> (start_state (Some ''tk1''))))
     = [Log (''Starting scan for target '' @ sq @ ''shop'' @ sq @ '' in background...'')]
   \<and> timers (snd (start_scan failing_env
         \<lparr>project = Some ''demo'', project_id = None, auth = None, auth_id = None, no_auth = None,
          target_name = ''shop'', format_arg = None\<rparr> (start_state (Some ''tk1''))))
     = [StartScanTask ''shop''
          \<lparr>project = Some ''demo'', project_id = None, auth = None, auth_id = None, no_auth = None\<rparr>
          FJson]
   \<and> trace (run_next_timer failing_env (snd (start_scan failing_env
         \<lparr>project = Some ''demo'', project_id = None, auth = None, auth_id = None, no_auth = None,
          target_name = ''shop'', format_arg = None\<rparr> (start_state (Some ''tk1'')))))
     = [Log (''Starting scan for target '' @ sq @ ''shop'' @ sq @ '' in background...''),
        Log ''Executing: nightvision scan shop -p demo -F json --api-url https://api.nightvision.net/api/v1/ --token tk1'',
        Exec ''nightvision scan shop -p demo -F json --api-url https://api.nightvision.net/api/v1/ --token tk1'',
        Log ''Failed to execute NightVision command: Command failed: nightvision'',
        Log ''Error in background scan execution: NightVision command failed: Command failed: nightvision'']
   \<and> trace (run_next_timer launching_env (snd (start_scan launching_env
         \<lparr>project = Some ''demo'', project_id = None, auth = None, auth_id = None, no_auth = None,
          target_name = ''shop'', format_arg = None\<rparr> (start_state (Some ''tk1'')))))
     = [Log (''Starting scan for target '' @ sq @ ''shop'' @ sq @ '' in background...''),
        Log ''Executing: nightvision scan shop -p demo -F json --api-url https://api.nightvision.net/api/v1/ --token tk1'',
        Exec ''nightvision scan shop -p demo -F json --api-url https://api.nightvision.net/api/v1/ --token tk1'',
        Log ''Extracted scan ID: scan-42'',
        Log ''Scan started with ID: scan-42'',
        Log (''Scan started successfully in background: {'' @ nl
             @ ''  '' @ dq @ ''id'' @ dq @ '': '' @ dq @ ''scan-42'' @ dq @ '','' @ nl
             @ ''  '' @ dq @ ''extracted_id'' @ dq @ '': '' @ dq @ ''scan-42'' @ dq @ nl
             @ ''}...'')]
   \<and> token (run_next_timer launching_env (snd (start_scan launching_env
         \<lparr>project = Some ''demo'', project_id = None, auth = None, auth_id = None, no_auth = None,
          target_name = ''shop'', format_arg = None\<rparr> (start_state (Some ''tk1''))))) = Some ''tk1''
   \<and> timers (run_next_timer launching_env (snd (start_scan launching_env
         \<lparr>project = Some ''demo'', project_id = None, auth = None, auth_id = None, no_auth = None,
          target_name = ''shop'', format_arg = None\<rparr> (start_state (Some ''tk1''))))) = []"
proof -
  let ?s = "start_state (Some ''tk1'')"
  let ?a = "\<lparr>project = Some ''demo'', project_id = None, auth = None, auth_id = None, no_auth = None,
          target_name = ''shop'', format_arg = None\<rparr>"
  have h1: "truthy (token ?s)" by (simp add: start_state_def truthy_def)
  have h2: "truthy (project ?a) \<or> truthy (project_id ?a)" by (simp add: truthy_def)
  note t = start_scan_fire_and_forget[OF h1 h2, of failing_env launching_env]
  have e: "fst (start_scan failing_env ?a ?s)
     = \<lparr>content =
         [''Scan initiated for target '' @ sq @ ''shop'' @ sq @ ''.'' @ nl @ nl
          @ ''The scan is being processed in the background and may take several minutes to complete.''
          @ nl @ nl
          @ ''To check the status of this scan, you can use the get-scan-status tool in either of these ways:''
          @ nl @ nl
          @ ''1. Using the target name:'' @ nl
          @ ''   {'' @ nl
          @ ''     '' @ dq @ ''target_name'' @ dq @ '': '' @ dq @ ''shop'' @ dq @ '','' @ nl
          @ ''     '' @ dq @ ''project'' @ dq @ '': '' @ dq @ ''demo'' @ dq @ nl
          @ ''   }'' @ nl @ nl
          @ ''2. Or when the scan ID becomes available, you can use:'' @ nl
          @ ''   {'' @ nl
          @ ''     '' @ dq @ ''scan_id'' @ dq @ '': '' @ dq @ ''scan-id-here'' @ dq @ nl
          @ ''   }'' @ nl @ nl
          @ ''You can also list all your scans with the list-scans tool.''],
        isError = None, promptResponse = None\<rparr>"
    using t by (elim exE conjE) simp
  have i: "fst (start_scan launching_env ?a ?s) = fst (start_scan failing_env ?a ?s)"
    using t by (elim exE conjE)
  have c: "commandsOf (issued ?s (snd (start_scan failing_env ?a ?s))) = []"
    using t by (elim exE conjE)
  have q: "timers (snd (start_scan failing_env ?a ?s))
     = [StartScanTask ''shop''
          \<lparr>project = Some ''demo'', project_id = None, auth = None, auth_id = None, no_auth = None\<rparr>
          FJson]"
    using t by (elim exE conjE) (simp add: start_state_def)
  have t0: "trace (snd (start_scan launching_env ?a ?s))
     = [Log (''Starting scan for target '' @ sq @ ''shop'' @ sq @ '' in background...'')]"
    by code_simp
  have r: "trace (run_next_timer failing_env (snd (start_scan failing_env ?a ?s)))
     = [Log (''Starting scan for target '' @ sq @ ''shop'' @ sq @ '' in background...''),
        Log ''Executing: nightvision scan shop -p demo -F json --api-url https://api.nightvision.net/api/v1/ --token tk1'',
        Exec ''nightvision scan shop -p demo -F json --api-url https://api.nightvision.net/api/v1/ --token tk1'',
        Log ''Failed to execute NightVision command: Command failed: nightvision'',
        Log ''Error in background scan execution: NightVision command failed: Command failed: nightvision'']"
    by code_simp
  have r': "trace (run_next_timer launching_env (snd (start_scan launching_env ?a ?s)))
     = [Log (''Starting scan for target '' @ sq @ ''shop'' @ sq @ '' in background...''),
        Log ''Executing: nightvision scan shop -p demo -F json --api-url https://api.nightvision.net/api/v1/ --token tk1'',
        Exec ''nightvision scan shop -p demo -F json --api-url https://api.nightvision.net/api/v1/ --token tk1'',
        Log ''Extracted scan ID: scan-42'',
        Log ''Scan started with ID: scan-42'',
        Log (''Scan started successfully in background: {'' @ nl
             @ ''  '' @ dq @ ''id'' @ dq @ '': '' @ dq @ ''scan-42'' @ dq @ '','' @ nl
             @ ''  '' @ dq @ ''extracted_id'' @ dq @ '': '' @ dq @ ''scan-42'' @ dq @ nl
             @ ''}...'')]"
    by code_simp
  have tk: "token (run_next_timer launching_env (snd (start_scan launching_env ?a ?s))) = Some ''tk1''"
    by code_simp
  have tm: "timers (run_next_timer launching_env (snd (start_scan launching_env ?a ?s))) = []"
    by code_simp
  show ?thesis
    using h1 e i c t0 q r r' tk tm by (simp only: simp_thms)
qed

subsection \<open>Validation failure in the authenticate tool\<close>

lemma apiRequest_state:
  "snd (apiRequest e endpoint method ps data isFormData s)
     = s\<lparr>trace := trace s @ [Http \<lparr>req_method = method, req_url = CURRENT_API_URL @ endpoint,
                        req_headers = (if isFormData then [(''Authorization'', authorization (token s))]
                                       else getApiHeaders s),
                        req_params = ps, req_data = data\<rparr>]\<rparr>"
  by (simp add: apiRequest_def Let_def split: sum.splits)

lemma verifyProductionAuth_state:
  "\<exists>evs. snd (verifyProductionAuth e s) = s\<lparr>trace := trace s @ evs\<rparr>"
proof (cases "falsy (token s)")
  case True
  then show ?thesis by (intro exI[of _ "[]"]) (simp add: verifyProductionAuth_def)
next
  case False
  let ?A = "apiRequest e ''user/me/'' GET [] NoBody False s"
  obtain r where a: "snd ?A = s\<lparr>trace := trace s @ [Http r]\<rparr>"
    using apiRequest_state[of e "''user/me/''" GET "[]" NoBody False s] by blast
  have "snd (verifyProductionAuth e s) = snd ?A
      \<or> (\<exists>m. snd (verifyProductionAuth e s) = log m (snd ?A))"
    using False
    by (auto simp: verifyProductionAuth_def split_beta split: sum.splits)
  then show ?thesis
  proof
    assume "snd (verifyProductionAuth e s) = snd ?A"
    then show ?thesis unfolding a by blast
  next
    assume "\<exists>m. snd (verifyProductionAuth e s) = log m (snd ?A)"
    then obtain m where "snd (verifyProductionAuth e s) = log m (snd ?A)" ..
    then have "snd (verifyProductionAuth e s) = s\<lparr>trace := trace s @ [Http r, Log m]\<rparr>"
      unfolding a by (simp add: log_def)
    then show ?thesis by blast
  qed
qed

lemma clearToken_no_file:
  "io_error s Unlink = None \<Longrightarrow> token_file (clearToken s) \<noteq> Some (File c)"
  by (cases "token_file s")
     (auto simp: clearToken_def existsSync_def unlinkSync_def split: node.splits)

lemma saveToken_io_error [simp]: "io_error (saveToken t s) = io_error s"
  by (auto simp: saveToken_def mkdirSync_def writeFileSync_def existsSync_def
        split: option.splits node.splits sum.splits)

lemma clearToken_token [simp]: "token (clearToken s) = token s"
  by (auto simp: clearToken_def unlinkSync_def split: option.splits node.splits)

lemma authenticateProvided_invalid_clears:
  assumes "\<not> fst (verifyProductionAuth e (saveToken tok (setToken (Some tok) s)))"
    and "io_error s Unlink = None"
  shows "isError (fst (authenticateProvided e tok s)) = Some True
       \<and> token (snd (authenticateProvided e tok s)) = None
       \<and> token_file (snd (authenticateProvided e tok s)) \<noteq> Some (File c)"
proof -
  let ?s1 = "saveToken tok (setToken (Some tok) s)"
  obtain evs where v: "snd (verifyProductionAuth e ?s1) = ?s1\<lparr>trace := trace ?s1 @ evs\<rparr>"
    using verifyProductionAuth_state by blast
  have "io_error (snd (verifyProductionAuth e ?s1)) = io_error ?s1"
    by (simp add: v)
  then have io: "io_error (setToken None (snd (verifyProductionAuth e ?s1))) Unlink = None"
    using assms(2) by (simp add: setToken_def)
  have a: "authenticateProvided e tok s
      = (errorResult (''The provided token is not valid.'' @ nl @ nl
                 @ ''Please run the following command and then try again:'' @ nl @ loginHint),
         clearToken (setToken None (snd (verifyProductionAuth e ?s1))))"
    using assms(1) by (simp add: authenticateProvided_def split_beta Let_def)
  show ?thesis
    using clearToken_no_file[OF io, of c]
    by (simp add: a errorResult_def setToken_def)
qed

text \<open>
  Claim C4 on the code. In a world where the token command prints a token and the API
  rejects it, the authenticate tool called with \<^verbatim>\<open>create_new\<close> returns its error envelope
  while the new token is still held in the process and still in the token file. Called
  with the same token as a parameter it returns an error envelope too, with the token
  reset to \<^verbatim>\<open>null\<close> and the token file removed, as
  \<open>authenticateProvided_invalid_clears\<close> shows for every world.
\<close>

theorem authenticate_create_new_keeps_invalid_token:
  "isError (fst (authenticate rejecting_env
       \<lparr>token_param = None, create_new = Some True, expiry_date = None\<rparr> (start_state None)))
     = Some True
   \<and> token (snd (authenticate rejecting_env
       \<lparr>token_param = None, create_new = Some True, expiry_date = None\<rparr> (start_state None)))
     = Some ''nv_tk_0123456789abcdef''
   \<and> token_file (snd (authenticate rejecting_env
       \<lparr>token_param = None, create_new = Some True, expiry_date = None\<rparr> (start_state None)))
     = Some (File ''nv_tk_0123456789abcdef'')
   \<and> isError (fst (authenticate rejecting_env
       \<lparr>token_param = Some ''nv_tk_0123456789abcdef'', create_new = None, expiry_date = None\<rparr>
       (start_state None)))
     = Some True
   \<and> token (snd (authenticate rejecting_env
       \<lparr>token_param = Some ''nv_tk_0123456789abcdef'', create_new = None, expiry_date = None\<rparr>
       (start_state None)))
     = None
   \<and> token_file (snd (authenticate rejecting_env
       \<lparr>token_param = Some ''nv_tk_0123456789abcdef'', create_new = None, expiry_date = None\<rparr>
       (start_state None)))
     = None"
  by code_simp

end
